theory Spec2Isabelle
  imports Complex_Main "HOL-Library.Log_Nat"
begin

section \<open>The booking controller of the studio booking assistant\<close>

text \<open>
  The development embeds the request handlers of the booking controller
  (\<^verbatim>\<open>controllers/booking.controller\<close>: createBooking, updateBooking, deleteBooking,
  confirmBooking, cancelBooking) together with the validators that the router
  (\<^verbatim>\<open>routes/booking.routes.js\<close>) puts in front of createBooking.

  A handler is a function from the collaborators it calls, the authenticated user, the
  request and the database to the HTTP response and the database afterwards. The
  database carries the collections the controller queries, the mails handed to
  \<^verbatim>\<open>sendEmail\<close> and the lines written with \<^verbatim>\<open>console.error\<close>.
\<close>

subsection \<open>JavaScript numbers\<close>

text \<open>
  A JavaScript number is an IEEE 754 binary64 value. The finite ones are the rationals
  \<open>n * 2 ^ e\<close> with \<open>\<bar>n\<bar> < 2 ^ 53\<close> and \<open>- 1074 \<le> e \<le> 971\<close>; the sign of zero is not
  tracked (the controller divides by the constant 3600000 only). Every arithmetic
  operation computes the exact result and rounds it to the nearest binary64 value, ties
  to the even significand, and to an infinity from \<open>2 ^ 1024\<close> on.
\<close>

datatype jsnum = Finite rat | PosInfinity | NegInfinity | NaN

definition ilog2 :: "rat \<Rightarrow> int" where
  \<comment> \<open>for \<open>0 < x\<close>: the integer \<open>k\<close> with \<open>2 ^ k \<le> x < 2 ^ (k + 1)\<close>\<close>
  "ilog2 x = (let (p, q) = quotient_of x; d = bitlen p - bitlen q
              in if 2 powi d \<le> x then d else d - 1)"

definition roundTiesToEven :: "rat \<Rightarrow> int" where
  "roundTiesToEven m = (let f = \<lfloor>m\<rfloor>; r = m - of_int f
     in if r < 1 / 2 then f else if 1 / 2 < r then f + 1 else if even f then f else f + 1)"

definition round64 :: "rat \<Rightarrow> jsnum" where
  "round64 x = (if x = 0 then Finite 0 else
     let a = \<bar>x\<bar>;
         e = max (ilog2 a) (- 1022) - 52;
         y = of_int (roundTiesToEven (a / 2 powi e)) * 2 powi e
     in if 2 powi 1024 \<le> y then (if 0 < x then PosInfinity else NegInfinity)
        else Finite (if 0 < x then y else - y))"

fun js_sub :: "jsnum \<Rightarrow> jsnum \<Rightarrow> jsnum" where
  "js_sub (Finite a) (Finite b) = round64 (a - b)"
| "js_sub NaN _ = NaN"
| "js_sub _ NaN = NaN"
| "js_sub PosInfinity PosInfinity = NaN"
| "js_sub NegInfinity NegInfinity = NaN"
| "js_sub PosInfinity (Finite b) = PosInfinity"
| "js_sub PosInfinity NegInfinity = PosInfinity"
| "js_sub NegInfinity (Finite b) = NegInfinity"
| "js_sub NegInfinity PosInfinity = NegInfinity"
| "js_sub (Finite a) PosInfinity = NegInfinity"
| "js_sub (Finite a) NegInfinity = PosInfinity"

fun js_mul :: "jsnum \<Rightarrow> jsnum \<Rightarrow> jsnum" where
  "js_mul (Finite a) (Finite b) = round64 (a * b)"
| "js_mul NaN _ = NaN"
| "js_mul _ NaN = NaN"
| "js_mul (Finite a) PosInfinity =
     (if a = 0 then NaN else if 0 < a then PosInfinity else NegInfinity)"
| "js_mul (Finite a) NegInfinity =
     (if a = 0 then NaN else if 0 < a then NegInfinity else PosInfinity)"
| "js_mul PosInfinity (Finite b) =
     (if b = 0 then NaN else if 0 < b then PosInfinity else NegInfinity)"
| "js_mul NegInfinity (Finite b) =
     (if b = 0 then NaN else if 0 < b then NegInfinity else PosInfinity)"
| "js_mul PosInfinity PosInfinity = PosInfinity"
| "js_mul PosInfinity NegInfinity = NegInfinity"
| "js_mul NegInfinity PosInfinity = NegInfinity"
| "js_mul NegInfinity NegInfinity = PosInfinity"

fun js_div :: "jsnum \<Rightarrow> jsnum \<Rightarrow> jsnum" where
  "js_div (Finite a) (Finite b) =
     (if b = 0 then (if a = 0 then NaN else if 0 < a then PosInfinity else NegInfinity)
      else round64 (a / b))"
| "js_div NaN _ = NaN"
| "js_div _ NaN = NaN"
| "js_div (Finite a) _ = Finite 0"
| "js_div PosInfinity (Finite b) = (if 0 \<le> b then PosInfinity else NegInfinity)"
| "js_div NegInfinity (Finite b) = (if 0 \<le> b then NegInfinity else PosInfinity)"
| "js_div PosInfinity PosInfinity = NaN"
| "js_div PosInfinity NegInfinity = NaN"
| "js_div NegInfinity PosInfinity = NaN"
| "js_div NegInfinity NegInfinity = NaN"

subsection \<open>Documents, collections and collaborators\<close>

type_synonym oid = nat
type_synonym time = int

text \<open>
  An object id is a number. A \<^verbatim>\<open>Date\<close> is its time value, the milliseconds since the
  epoch, which the query operators \<^verbatim>\<open>$lt\<close>, \<^verbatim>\<open>$lte\<close>, \<^verbatim>\<open>$gt\<close> and \<^verbatim>\<open>$gte\<close> compare.
  A string field that may be \<^verbatim>\<open>undefined\<close> is a \<open>string option\<close>.
\<close>

record user =
  user_id :: oid
  userType :: string
  email :: string

record studio =
  owner :: oid
  studioName :: string

record room =
  studio :: oid
  hourlyRate :: jsnum

record equipmentItem =
  equipmentName :: string

record booking =
  booking_id :: oid
  room :: oid
  client :: oid
  startTime :: time
  endTime :: time
  equipment :: "oid list"
  staff :: "oid list"
  totalAmount :: jsnum
  bookingNotes :: "string option"
  status :: string
  cancellationReason :: "string option"
  cancelledBy :: "oid option"
  cancelledAt :: "time option"

record mail =
  mailTo :: string
  mailSubject :: string
  mailText :: string

datatype exn = ReferenceError string | TypeError string | ValidationError | MailError

record db =
  bookings :: "booking list"
  rooms :: "oid \<rightharpoonup> room"
  studios :: "oid \<rightharpoonup> studio"
  equipmentItems :: "oid \<rightharpoonup> equipmentItem"
  users :: "oid \<rightharpoonup> user"
  outbox :: "mail list"
  errorLog :: "(string \<times> exn) list"

text \<open>
  The Booking schema (\<^verbatim>\<open>models/booking.model\<close>), the mailer (\<^verbatim>\<open>utils/email\<close>) and the
  clock are not part of the controller. They are parameters: \<open>schemaAccepts\<close> tells
  whether \<^verbatim>\<open>save\<close> stores a document or throws, \<open>delivers\<close> whether \<^verbatim>\<open>sendEmail\<close>
  resolves or rejects, and \<open>now\<close> is \<^verbatim>\<open>Date.now()\<close>.

  The status of a booking is a string path of the schema, and the body of a request to
  updateBooking passes no validator, so the status of a request is any JSON value.
  \<open>castStatus\<close> is what the path makes of a value assigned to \<^verbatim>\<open>booking.status\<close>: the
  string the document then holds, or \<open>None\<close> when the path refuses the value; the
  document then keeps its status and is invalid, and \<^verbatim>\<open>save\<close> throws.
\<close>

datatype jsvalue =
    JUndefined
  | JNull
  | JBool bool
  | JNum jsnum
  | JStr string
  | JArr "jsvalue list"
  | JObj "(string \<times> jsvalue) list"

fun truthyValue :: "jsvalue \<Rightarrow> bool" where
  "truthyValue JUndefined = False"
| "truthyValue JNull = False"
| "truthyValue (JBool b) = b"
| "truthyValue (JNum n) = (n \<noteq> Finite 0 \<and> n \<noteq> NaN)"
| "truthyValue (JStr s) = (s \<noteq> [])"
| "truthyValue (JArr xs) = True"
| "truthyValue (JObj fs) = True"

record services =
  schemaAccepts :: "booking \<Rightarrow> bool"
  castStatus :: "jsvalue \<Rightarrow> string option"
  delivers :: "mail \<Rightarrow> bool"
  now :: time

datatype payload = Message string | Errors | Document "booking option"

record response =
  statusCode :: nat
  payload :: payload

text \<open>
  The body of a request, with the fields the handlers read. The status is the JSON
  value of the request (\<open>JUndefined\<close> when absent), since updateBooking compares it with
  the stored status after the assignment. The other fields are taken at the type of the
  document path they are assigned to; one that is absent is \<open>None\<close>. In a condition a
  string counts as true when it is not empty, and an array always does.
\<close>

record body =
  roomId :: "oid option"
  bodyStartTime :: "time option"
  bodyEndTime :: "time option"
  equipmentIds :: "oid list option"
  staffIds :: "oid list option"
  bodyNotes :: "string option"
  bodyStatus :: jsvalue
  reason :: "string option"

definition truthy :: "string option \<Rightarrow> bool" where
  "truthy v = (case v of None \<Rightarrow> False | Some s \<Rightarrow> s \<noteq> [])"

definition respond :: "nat \<Rightarrow> payload \<Rightarrow> response" where
  "respond c p = \<lparr>statusCode = c, payload = p\<rparr>"

definition findById :: "oid \<Rightarrow> booking list \<Rightarrow> booking option" where
  "findById i bs = find (\<lambda>b. booking_id b = i) bs"

fun replaceFirst :: "booking \<Rightarrow> booking list \<Rightarrow> booking list" where
  "replaceFirst b [] = []"
| "replaceFirst b (x # xs) =
     (if booking_id x = booking_id b then b # xs else x # replaceFirst b xs)"

definition freshId :: "booking list \<Rightarrow> oid" where
  "freshId bs = Suc (fold max (map booking_id bs) 0)"

definition save :: "services \<Rightarrow> booking \<Rightarrow> db \<Rightarrow> exn + db" where
  \<comment> \<open>\<^verbatim>\<open>booking.save()\<close> of a document that was loaded from the collection\<close>
  "save sv b d = (if schemaAccepts sv b then Inr (d\<lparr>bookings := replaceFirst b (bookings d)\<rparr>)
                  else Inl ValidationError)"

definition saveNew :: "services \<Rightarrow> booking \<Rightarrow> db \<Rightarrow> exn + db" where
  \<comment> \<open>\<^verbatim>\<open>booking.save()\<close> of a document made with \<^verbatim>\<open>new Booking\<close>\<close>
  "saveNew sv b d = (if schemaAccepts sv b then Inr (d\<lparr>bookings := bookings d @ [b]\<rparr>)
                     else Inl ValidationError)"

definition remove :: "booking \<Rightarrow> db \<Rightarrow> db" where
  "remove b d = d\<lparr>bookings := filter (\<lambda>x. booking_id x \<noteq> booking_id b) (bookings d)\<rparr>"

definition sendEmail :: "services \<Rightarrow> mail \<Rightarrow> db \<Rightarrow> exn + db" where
  "sendEmail sv m d = (if delivers sv m then Inr (d\<lparr>outbox := outbox d @ [m]\<rparr>)
                       else Inl MailError)"

definition serverError :: "string \<Rightarrow> exn \<Rightarrow> db \<Rightarrow> response \<times> db" where
  \<comment> \<open>the \<^verbatim>\<open>catch\<close> block every handler ends with\<close>
  "serverError tag x d =
     (respond 500 (Message ''Server error''), d\<lparr>errorLog := errorLog d @ [(tag, x)]\<rparr>)"

definition handled :: "string \<Rightarrow> (exn \<times> db) + (response \<times> db) \<Rightarrow> response \<times> db" where
  "handled tag r = (case r of Inr out \<Rightarrow> out | Inl (x, d) \<Rightarrow> serverError tag x d)"

subsection \<open>createBooking\<close>

text \<open>
  The validators of the route: \<^verbatim>\<open>roomId\<close> is not empty, \<^verbatim>\<open>startTime\<close> and \<^verbatim>\<open>endTime\<close>
  are ISO 8601 strings. A field that fails its validator is \<open>None\<close>; a time that passes
  is the instant \<^verbatim>\<open>new Date\<close> makes of it.
\<close>

definition validationErrors :: "body \<Rightarrow> bool" where
  "validationErrors rq \<longleftrightarrow> roomId rq = None \<or> bodyStartTime rq = None \<or> bodyEndTime rq = None"

definition overlapQuery :: "time \<Rightarrow> time \<Rightarrow> booking \<Rightarrow> bool" where
  \<comment> \<open>the \<^verbatim>\<open>$or\<close> of the three availability queries\<close>
  "overlapQuery s e b \<longleftrightarrow>
     (startTime b \<le> s \<and> endTime b > s) \<or>
     (startTime b < e \<and> endTime b \<ge> e) \<or>
     (startTime b \<ge> s \<and> endTime b \<le> e)"

definition roomConflict :: "booking list \<Rightarrow> oid \<Rightarrow> time \<Rightarrow> time \<Rightarrow> booking option" where
  "roomConflict bs r s e =
     find (\<lambda>b. room b = r \<and> status b \<noteq> ''cancelled'' \<and> overlapQuery s e b) bs"

definition equipmentConflict :: "booking list \<Rightarrow> oid \<Rightarrow> time \<Rightarrow> time \<Rightarrow> booking option" where
  "equipmentConflict bs q s e =
     find (\<lambda>b. q \<in> set (equipment b) \<and> status b \<noteq> ''cancelled'' \<and> overlapQuery s e b) bs"

definition findEquipment :: "(oid \<rightharpoonup> equipmentItem) \<Rightarrow> oid list \<Rightarrow> equipmentItem list" where
  \<comment> \<open>\<^verbatim>\<open>Equipment.find({ _id: { $in: equipmentIds } })\<close>\<close>
  "findEquipment m ids = List.map_filter m (remdups ids)"

fun equipmentLoop :: "db \<Rightarrow> time \<Rightarrow> time \<Rightarrow> oid list \<Rightarrow> exn + response option" where
  "equipmentLoop d s e [] = Inr None"
| "equipmentLoop d s e (equipId # ids) =
     (case equipmentConflict (bookings d) equipId s e of
        None \<Rightarrow> equipmentLoop d s e ids
      | Some _ \<Rightarrow>
          (case equipmentItems d equipId of
             None \<Rightarrow> Inl (TypeError ''Cannot read properties of null (reading 'name')'')
           | Some conflictingEquipment \<Rightarrow>
               Inr (Some (respond 400 (Message (''Equipment '' @ equipmentName conflictingEquipment
                            @ '' is not available for the requested time''))))))"

definition checkEquipment :: "db \<Rightarrow> time \<Rightarrow> time \<Rightarrow> oid list \<Rightarrow> exn + response option" where
  "checkEquipment d s e ids =
     (if ids \<noteq> [] then
        if length (findEquipment (equipmentItems d) ids) \<noteq> length ids
        then Inr (Some (respond 400 (Message ''One or more equipment items not found'')))
        else equipmentLoop d s e ids
      else Inr None)"

text \<open>
  The controller requires the models Booking, Room, Equipment and User only. The
  identifier \<^verbatim>\<open>Staff\<close> is bound nowhere, so evaluating \<^verbatim>\<open>Staff.find\<close> throws a
  ReferenceError, and the rest of the staff block is never reached.
\<close>

definition checkStaff :: "db \<Rightarrow> time \<Rightarrow> time \<Rightarrow> oid list \<Rightarrow> exn + response option" where
  "checkStaff d s e ids =
     (if ids \<noteq> [] then Inl (ReferenceError ''Staff is not defined'') else Inr None)"

definition dateValue :: "time \<Rightarrow> jsnum" where
  \<comment> \<open>the number a \<^verbatim>\<open>Date\<close> turns into under \<^verbatim>\<open>-\<close>; a time value is at most
      \<open>8.64 * 10 ^ 15\<close> in absolute value, below \<open>2 ^ 53\<close>, hence a binary64 number\<close>
  "dateValue t = Finite (of_int t)"

definition durationHours :: "time \<Rightarrow> time \<Rightarrow> jsnum" where
  "durationHours s e = js_div (js_sub (dateValue e) (dateValue s)) (Finite (1000 * 60 * 60))"

definition newBooking :: "db \<Rightarrow> user \<Rightarrow> oid \<Rightarrow> time \<Rightarrow> time \<Rightarrow> oid list \<Rightarrow> oid list \<Rightarrow>
    jsnum \<Rightarrow> string option \<Rightarrow> booking" where
  "newBooking d u r s e eqs sts amount n =
     \<lparr>booking_id = freshId (bookings d), room = r, client = user_id u, startTime = s,
      endTime = e, equipment = eqs, staff = sts, totalAmount = amount, bookingNotes = n,
      status = ''pending'', cancellationReason = None, cancelledBy = None,
      cancelledAt = None\<rparr>"

definition newBookingMail :: "user \<Rightarrow> studio \<Rightarrow> mail" where
  "newBookingMail studioOwner st =
     \<lparr>mailTo = email studioOwner, mailSubject = ''New Booking Request'',
      mailText = ''A new booking request has been made for '' @ studioName st
             @ ''. Please log in to confirm or reject the booking.''\<rparr>"

definition notifyOwner :: "services \<Rightarrow> room \<Rightarrow> db \<Rightarrow> exn + db" where
  "notifyOwner sv rm d =
     (case studios d (studio rm) of
        None \<Rightarrow> Inl (TypeError ''Cannot read properties of null (reading 'owner')'')
      | Some st \<Rightarrow>
          (case users d (owner st) of
             None \<Rightarrow> Inl (TypeError ''Cannot read properties of null (reading 'email')'')
           | Some studioOwner \<Rightarrow> sendEmail sv (newBookingMail studioOwner st) d))"

definition createBookingTry :: "services \<Rightarrow> user \<Rightarrow> oid \<Rightarrow> time \<Rightarrow> time \<Rightarrow> oid list \<Rightarrow>
    oid list \<Rightarrow> string option \<Rightarrow> db \<Rightarrow> (exn \<times> db) + (response \<times> db)" where
  "createBookingTry sv u r s e eqs sts n d =
     (case rooms d r of
        None \<Rightarrow> Inr (respond 404 (Message ''Room not found''), d)
      | Some rm \<Rightarrow>
     (case roomConflict (bookings d) r s e of
        Some _ \<Rightarrow> Inr (respond 400 (Message ''Room is not available for the requested time''), d)
      | None \<Rightarrow>
     (case checkEquipment d s e eqs of
        Inl x \<Rightarrow> Inl (x, d)
      | Inr (Some res) \<Rightarrow> Inr (res, d)
      | Inr None \<Rightarrow>
     (case checkStaff d s e sts of
        Inl x \<Rightarrow> Inl (x, d)
      | Inr (Some res) \<Rightarrow> Inr (res, d)
      | Inr None \<Rightarrow>
     (let b = newBooking d u r s e eqs sts (js_mul (hourlyRate rm) (durationHours s e)) n in
      case saveNew sv b d of
        Inl x \<Rightarrow> Inl (x, d)
      | Inr d1 \<Rightarrow>
     (case notifyOwner sv rm d1 of
        Inl x \<Rightarrow> Inl (x, d1)
      | Inr d2 \<Rightarrow>
          Inr (respond 201 (Document (findById (booking_id b) (bookings d2))), d2)))))))"

definition orEmpty :: "oid list option \<Rightarrow> oid list" where
  \<comment> \<open>the defaults \<^verbatim>\<open>equipmentIds = []\<close> and \<^verbatim>\<open>staffIds = []\<close> of the destructuring\<close>
  "orEmpty v = (case v of None \<Rightarrow> [] | Some ids \<Rightarrow> ids)"

definition createBooking :: "services \<Rightarrow> user \<Rightarrow> body \<Rightarrow> db \<Rightarrow> response \<times> db" where
  "createBooking sv u rq d =
     (if validationErrors rq then (respond 400 Errors, d) else
      case (roomId rq, bodyStartTime rq, bodyEndTime rq) of
        (Some r, Some s, Some e) \<Rightarrow>
          handled ''Create booking error:''
            (createBookingTry sv u r s e (orEmpty (equipmentIds rq)) (orEmpty (staffIds rq))
               (bodyNotes rq) d)
      | _ \<Rightarrow> (respond 400 Errors, d))"

subsection \<open>Who may act on a booking\<close>

definition roomStudio :: "db \<Rightarrow> booking \<Rightarrow> exn + studio" where
  \<comment> \<open>\<^verbatim>\<open>Room.findById(booking.room).populate('studio')\<close>, then \<^verbatim>\<open>room.studio.owner\<close>\<close>
  "roomStudio d b =
     (case rooms d (room b) of
        None \<Rightarrow> Inl (TypeError ''Cannot read properties of null (reading 'studio')'')
      | Some rm \<Rightarrow>
          (case studios d (studio rm) of
             None \<Rightarrow> Inl (TypeError ''Cannot read properties of null (reading 'owner')'')
           | Some st \<Rightarrow> Inr st))"

definition isStaffOf :: "user \<Rightarrow> exn + bool" where
  \<comment> \<open>\<^verbatim>\<open>req.user.userType === 'staff' && await Staff.exists(...)\<close>, with \<^verbatim>\<open>Staff\<close> unbound\<close>
  "isStaffOf u =
     (if userType u = ''staff'' then Inl (ReferenceError ''Staff is not defined'') else Inr False)"

definition clientOf :: "db \<Rightarrow> booking \<Rightarrow> exn + user" where
  \<comment> \<open>\<^verbatim>\<open>User.findById(booking.client)\<close>, then \<^verbatim>\<open>client.email\<close>\<close>
  "clientOf d b =
     (case users d (client b) of
        None \<Rightarrow> Inl (TypeError ''Cannot read properties of null (reading 'email')'')
      | Some c \<Rightarrow> Inr c)"

definition ownerOf :: "db \<Rightarrow> studio \<Rightarrow> exn + user" where
  \<comment> \<open>\<^verbatim>\<open>User.findById(room.studio.owner)\<close>, then \<^verbatim>\<open>studioOwner.email\<close>\<close>
  "ownerOf d st =
     (case users d (owner st) of
        None \<Rightarrow> Inl (TypeError ''Cannot read properties of null (reading 'email')'')
      | Some c \<Rightarrow> Inr c)"

definition populated :: "oid \<Rightarrow> db \<Rightarrow> payload" where
  "populated i d = Document (findById i (bookings d))"

subsection \<open>updateBooking\<close>

definition clientUpdate :: "body \<Rightarrow> booking \<Rightarrow> booking" where
  "clientUpdate rq b =
     (let b1 = (if truthy (bodyNotes rq) then b\<lparr>bookingNotes := bodyNotes rq\<rparr> else b)
      in case equipmentIds rq of None \<Rightarrow> b1 | Some ids \<Rightarrow> b1\<lparr>equipment := ids\<rparr>)"

definition statusRefused :: "services \<Rightarrow> body \<Rightarrow> bool" where
  \<comment> \<open>the assignment \<^verbatim>\<open>booking.status = status\<close> has left the document invalid\<close>
  "statusRefused sv rq \<longleftrightarrow>
     truthyValue (bodyStatus rq) \<and> castStatus sv (bodyStatus rq) = None"

definition ownerUpdate :: "services \<Rightarrow> body \<Rightarrow> booking \<Rightarrow> booking" where
  "ownerUpdate sv rq b =
     (let b1 = (if truthyValue (bodyStatus rq)
                then (case castStatus sv (bodyStatus rq) of
                        None \<Rightarrow> b
                      | Some s \<Rightarrow> b\<lparr>status := s\<rparr>)
                else b);
          b2 = (case staffIds rq of None \<Rightarrow> b1 | Some ids \<Rightarrow> b1\<lparr>staff := ids\<rparr>)
      in if truthy (bodyNotes rq) then b2\<lparr>bookingNotes := bodyNotes rq\<rparr> else b2)"

definition saveUpdated :: "services \<Rightarrow> body \<Rightarrow> booking \<Rightarrow> db \<Rightarrow> exn + db" where
  \<comment> \<open>\<^verbatim>\<open>booking.save()\<close> after the assignments of the owner's branch\<close>
  "saveUpdated sv rq b d = (if statusRefused sv rq then Inl ValidationError else save sv b d)"

definition statusMail :: "user \<Rightarrow> studio \<Rightarrow> jsvalue \<Rightarrow> mail" where
  "statusMail c st v =
     \<lparr>mailTo = email c,
      mailSubject = ''Booking ''
                    @ (if v = JStr ''confirmed'' then ''Confirmed'' else ''Updated''),
      mailText = ''Your booking for '' @ studioName st @ '' has been ''
                 @ (if v = JStr ''confirmed'' then ''confirmed'' else ''updated'')
                 @ ''. Please log in to view details.''\<rparr>"

definition statusChanged :: "body \<Rightarrow> booking \<Rightarrow> bool" where
  \<comment> \<open>\<^verbatim>\<open>status && status !== booking.status\<close>, read after the assignments and the save:
      the value of the request against the string of the document\<close>
  "statusChanged rq b \<longleftrightarrow>
     truthyValue (bodyStatus rq) \<and> bodyStatus rq \<noteq> JStr (status b)"

definition updateBookingTry :: "services \<Rightarrow> user \<Rightarrow> oid \<Rightarrow> body \<Rightarrow> db \<Rightarrow>
    (exn \<times> db) + (response \<times> db)" where
  "updateBookingTry sv u i rq d =
     (case findById i (bookings d) of
        None \<Rightarrow> Inr (respond 404 (Message ''Booking not found''), d)
      | Some b \<Rightarrow>
     (let isClient = (client b = user_id u) in
      case roomStudio d b of
        Inl x \<Rightarrow> Inl (x, d)
      | Inr st \<Rightarrow>
     (let isStudioOwner = (owner st = user_id u) in
      case isStaffOf u of
        Inl x \<Rightarrow> Inl (x, d)
      | Inr isStaff \<Rightarrow>
          if \<not> isClient \<and> \<not> isStudioOwner \<and> \<not> isStaff
          then Inr (respond 403 (Message ''Not authorized to update this booking''), d)
          else if isClient then
            if status b \<noteq> ''pending''
            then Inr (respond 400 (Message ''Cannot update a confirmed or cancelled booking''), d)
            else
              (case save sv (clientUpdate rq b) d of
                 Inl x \<Rightarrow> Inl (x, d)
               | Inr d1 \<Rightarrow> Inr (respond 200 (populated i d1), d1))
          else
            (let b' = ownerUpdate sv rq b in
             case saveUpdated sv rq b' d of
               Inl x \<Rightarrow> Inl (x, d)
             | Inr d1 \<Rightarrow>
                 if statusChanged rq b'
                 then (case clientOf d1 b' of
                         Inl x \<Rightarrow> Inl (x, d1)
                       | Inr c \<Rightarrow>
                           (case sendEmail sv (statusMail c st (bodyStatus rq)) d1 of
                              Inl x \<Rightarrow> Inl (x, d1)
                            | Inr d2 \<Rightarrow> Inr (respond 200 (populated i d2), d2)))
                 else Inr (respond 200 (populated i d1), d1)))))"

definition updateBooking :: "services \<Rightarrow> user \<Rightarrow> oid \<Rightarrow> body \<Rightarrow> db \<Rightarrow> response \<times> db" where
  "updateBooking sv u i rq d =
     handled ''Update booking error:'' (updateBookingTry sv u i rq d)"

subsection \<open>deleteBooking\<close>

definition deleteBookingTry :: "user \<Rightarrow> oid \<Rightarrow> db \<Rightarrow> (exn \<times> db) + (response \<times> db)" where
  "deleteBookingTry u i d =
     (case findById i (bookings d) of
        None \<Rightarrow> Inr (respond 404 (Message ''Booking not found''), d)
      | Some b \<Rightarrow>
     (let isClient = (client b = user_id u) in
      case roomStudio d b of
        Inl x \<Rightarrow> Inl (x, d)
      | Inr st \<Rightarrow>
     (let isStudioOwner = (owner st = user_id u) in
      case isStaffOf u of
        Inl x \<Rightarrow> Inl (x, d)
      | Inr isStaff \<Rightarrow>
          if \<not> isClient \<and> \<not> isStudioOwner \<and> \<not> isStaff
          then Inr (respond 403 (Message ''Not authorized to delete this booking''), d)
          else if isClient \<and> status b \<noteq> ''pending''
          then Inr (respond 400
                 (Message ''Cannot delete a confirmed booking. Please use cancel instead.''), d)
          else Inr (respond 200 (Message ''Booking deleted successfully''), remove b d))))"

definition deleteBooking :: "user \<Rightarrow> oid \<Rightarrow> db \<Rightarrow> response \<times> db" where
  "deleteBooking u i d = handled ''Delete booking error:'' (deleteBookingTry u i d)"

subsection \<open>confirmBooking\<close>

definition confirmMail :: "user \<Rightarrow> studio \<Rightarrow> mail" where
  "confirmMail c st =
     \<lparr>mailTo = email c, mailSubject = ''Booking Confirmed'',
      mailText = ''Your booking for '' @ studioName st @ '' has been confirmed.''\<rparr>"

definition confirmBookingTry :: "services \<Rightarrow> user \<Rightarrow> oid \<Rightarrow> db \<Rightarrow>
    (exn \<times> db) + (response \<times> db)" where
  "confirmBookingTry sv u i d =
     (case findById i (bookings d) of
        None \<Rightarrow> Inr (respond 404 (Message ''Booking not found''), d)
      | Some b \<Rightarrow>
     (case roomStudio d b of
        Inl x \<Rightarrow> Inl (x, d)
      | Inr st \<Rightarrow>
     (let isStudioOwner = (owner st = user_id u) in
      case isStaffOf u of
        Inl x \<Rightarrow> Inl (x, d)
      | Inr isStaff \<Rightarrow>
          if \<not> isStudioOwner \<and> \<not> isStaff
          then Inr (respond 403 (Message ''Not authorized to confirm this booking''), d)
          else
            (let b' = b\<lparr>status := ''confirmed''\<rparr> in
             case save sv b' d of
               Inl x \<Rightarrow> Inl (x, d)
             | Inr d1 \<Rightarrow>
                 (case clientOf d1 b' of
                    Inl x \<Rightarrow> Inl (x, d1)
                  | Inr c \<Rightarrow>
                      (case sendEmail sv (confirmMail c st) d1 of
                         Inl x \<Rightarrow> Inl (x, d1)
                       | Inr d2 \<Rightarrow> Inr (respond 200 (populated i d2), d2)))))))"

definition confirmBooking :: "services \<Rightarrow> user \<Rightarrow> oid \<Rightarrow> db \<Rightarrow> response \<times> db" where
  "confirmBooking sv u i d =
     handled ''Confirm booking error:'' (confirmBookingTry sv u i d)"

subsection \<open>cancelBooking\<close>

definition cancelled :: "services \<Rightarrow> user \<Rightarrow> body \<Rightarrow> booking \<Rightarrow> booking" where
  "cancelled sv u rq b =
     b\<lparr>status := ''cancelled'',
       cancellationReason :=
         (if truthy (reason rq) then reason rq else Some ''No reason provided''),
       cancelledBy := Some (user_id u),
       cancelledAt := Some (now sv)\<rparr>"

definition reasonText :: "booking \<Rightarrow> string" where
  "reasonText b = (case cancellationReason b of None \<Rightarrow> ''undefined'' | Some r \<Rightarrow> r)"

definition cancelMailClient :: "user \<Rightarrow> studio \<Rightarrow> booking \<Rightarrow> mail" where
  "cancelMailClient c st b =
     \<lparr>mailTo = email c, mailSubject = ''Booking Cancelled'',
      mailText = ''Your booking for '' @ studioName st @ '' has been cancelled. Reason: ''
                 @ reasonText b\<rparr>"

definition cancelMailOwner :: "user \<Rightarrow> studio \<Rightarrow> booking \<Rightarrow> mail" where
  "cancelMailOwner studioOwner st b =
     \<lparr>mailTo = email studioOwner, mailSubject = ''Booking Cancelled by Client'',
      mailText = ''A booking for '' @ studioName st
                 @ '' has been cancelled by the client. Reason: '' @ reasonText b\<rparr>"

definition cancelNotice :: "services \<Rightarrow> bool \<Rightarrow> studio \<Rightarrow> booking \<Rightarrow> db \<Rightarrow> exn + db" where
  \<comment> \<open>both users are looked up first; the mail goes to the party that did not cancel\<close>
  "cancelNotice sv isClient st b d =
     (if \<not> isClient
      then (case clientOf d b of
              Inl x \<Rightarrow> Inl x
            | Inr c \<Rightarrow> sendEmail sv (cancelMailClient c st b) d)
      else (case ownerOf d st of
              Inl x \<Rightarrow> Inl x
            | Inr studioOwner \<Rightarrow> sendEmail sv (cancelMailOwner studioOwner st b) d))"

definition cancelBookingTry :: "services \<Rightarrow> user \<Rightarrow> oid \<Rightarrow> body \<Rightarrow> db \<Rightarrow>
    (exn \<times> db) + (response \<times> db)" where
  "cancelBookingTry sv u i rq d =
     (case findById i (bookings d) of
        None \<Rightarrow> Inr (respond 404 (Message ''Booking not found''), d)
      | Some b \<Rightarrow>
     (let isClient = (client b = user_id u) in
      case roomStudio d b of
        Inl x \<Rightarrow> Inl (x, d)
      | Inr st \<Rightarrow>
     (let isStudioOwner = (owner st = user_id u) in
      case isStaffOf u of
        Inl x \<Rightarrow> Inl (x, d)
      | Inr isStaff \<Rightarrow>
          if \<not> isClient \<and> \<not> isStudioOwner \<and> \<not> isStaff
          then Inr (respond 403 (Message ''Not authorized to cancel this booking''), d)
          else
            (let b' = cancelled sv u rq b in
             case save sv b' d of
               Inl x \<Rightarrow> Inl (x, d)
             | Inr d1 \<Rightarrow>
                 (case cancelNotice sv isClient st b' d1 of
                    Inl x \<Rightarrow> Inl (x, d1)
                  | Inr d2 \<Rightarrow> Inr (respond 200 (populated i d2), d2))))))"

definition cancelBooking :: "services \<Rightarrow> user \<Rightarrow> oid \<Rightarrow> body \<Rightarrow> db \<Rightarrow> response \<times> db" where
  "cancelBooking sv u i rq d =
     handled ''Cancel booking error:'' (cancelBookingTry sv u i rq d)"

subsection \<open>Words of the specification\<close>

definition sameFrame :: "booking \<Rightarrow> booking \<Rightarrow> bool" where
  \<comment> \<open>the fields no role may change with updateBooking\<close>
  "sameFrame b b' \<longleftrightarrow>
     booking_id b' = booking_id b \<and> room b' = room b \<and> client b' = client b \<and>
     startTime b' = startTime b \<and> endTime b' = endTime b \<and>
     totalAmount b' = totalAmount b \<and> cancellationReason b' = cancellationReason b \<and>
     cancelledBy b' = cancelledBy b \<and> cancelledAt b' = cancelledAt b"



definition equipmentUnavailable :: "equipmentItem \<Rightarrow> response" where
  "equipmentUnavailable item =
     respond 400 (Message (''Equipment '' @ equipmentName item
                           @ '' is not available for the requested time''))"

subsection \<open>A studio to run the handlers on\<close>

text \<open>
  One studio with the rooms 10 and 11 and a microphone, owned by user 1; users 2 and 3
  are musicians. Times are milliseconds of the first day of the epoch: 36000000 is
  10:00, 39600000 is 11:00 and 43200000 is 12:00.
\<close>

definition stringPath :: "jsvalue \<Rightarrow> string option" where
  \<comment> \<open>a string path on the values of the examples: it keeps a string, prints a Boolean
      and takes the \<^verbatim>\<open>_id\<close> of an object whose \<^verbatim>\<open>_id\<close> is a non-empty string; it
      refuses other objects and arrays, and numbers, whose printing is not modelled\<close>
  "stringPath v =
     (case v of
        JStr s \<Rightarrow> Some s
      | JBool b \<Rightarrow> Some (if b then ''true'' else ''false'')
      | JObj fs \<Rightarrow>
          (case map_of fs ''_id'' of
             Some (JStr i) \<Rightarrow> if i \<noteq> [] then Some i else None
           | _ \<Rightarrow> None)
      | _ \<Rightarrow> None)"

definition reliable :: services where
  "reliable = \<lparr>schemaAccepts = (\<lambda>_. True), castStatus = stringPath,
               delivers = (\<lambda>_. True), now = 50000000\<rparr>"

definition mailDown :: services where
  "mailDown = \<lparr>schemaAccepts = (\<lambda>_. True), castStatus = stringPath,
               delivers = (\<lambda>_. False), now = 50000000\<rparr>"

definition statusEnum :: "booking \<Rightarrow> bool" where
  \<comment> \<open>the four values of the status column of the migration\<close>
  "statusEnum b \<longleftrightarrow>
     status b = ''pending'' \<or> status b = ''confirmed'' \<or> status b = ''cancelled'' \<or>
     status b = ''completed''"

definition strict :: services where
  "strict = \<lparr>schemaAccepts = statusEnum, castStatus = stringPath,
             delivers = (\<lambda>_. True), now = 50000000\<rparr>"

definition studioOwner1 :: user where
  "studioOwner1 = \<lparr>user_id = 1, userType = ''studio_owner'', email = ''owner@studio''\<rparr>"

definition musician2 :: user where
  "musician2 = \<lparr>user_id = 2, userType = ''musician'', email = ''two@band''\<rparr>"

definition musician3 :: user where
  "musician3 = \<lparr>user_id = 3, userType = ''musician'', email = ''three@band''\<rparr>"

definition studioDb :: "booking list \<Rightarrow> db" where
  "studioDb bs =
     \<lparr>bookings = bs,
      rooms = [10 \<mapsto> \<lparr>studio = 20, hourlyRate = Finite 50\<rparr>,
               11 \<mapsto> \<lparr>studio = 20, hourlyRate = Finite (3602879701896397 / 36028797018963968)\<rparr>],
      studios = [20 \<mapsto> \<lparr>owner = 1, studioName = ''Studio''\<rparr>],
      equipmentItems = [30 \<mapsto> \<lparr>equipmentName = ''Mic''\<rparr>],
      users = [1 \<mapsto> studioOwner1, 2 \<mapsto> musician2, 3 \<mapsto> musician3],
      outbox = [], errorLog = []\<rparr>"

definition booked :: "oid \<Rightarrow> oid \<Rightarrow> oid \<Rightarrow> time \<Rightarrow> time \<Rightarrow> string \<Rightarrow> booking" where
  "booked i r c s e st =
     \<lparr>booking_id = i, room = r, client = c, startTime = s, endTime = e, equipment = [],
      staff = [], totalAmount = Finite 0, bookingNotes = None, status = st,
      cancellationReason = None, cancelledBy = None, cancelledAt = None\<rparr>"

definition noBody :: body where
  "noBody = \<lparr>roomId = None, bodyStartTime = None, bodyEndTime = None, equipmentIds = None,
             staffIds = None, bodyNotes = None, bodyStatus = JUndefined, reason = None\<rparr>"

definition window :: "oid \<Rightarrow> time \<Rightarrow> time \<Rightarrow> body" where
  "window r s e = noBody\<lparr>roomId := Some r, bodyStartTime := Some s, bodyEndTime := Some e\<rparr>"

section \<open>Properties of the handlers\<close>

lemmas fixtures = reliable_def mailDown_def strict_def stringPath_def statusEnum_def studioOwner1_def musician2_def musician3_def
  studioDb_def booked_def noBody_def window_def

lemmas plumbing = handled_def serverError_def respond_def findById_def roomStudio_def
  isStaffOf_def clientOf_def ownerOf_def populated_def save_def saveNew_def remove_def
  sendEmail_def truthy_def saveUpdated_def statusRefused_def Let_def

subsection \<open>Looking up and saving a booking\<close>

lemma findById_id: "findById i bs = Some b \<Longrightarrow> booking_id b = i"
  unfolding findById_def by (induction bs) (auto split: if_splits)

lemma findById_replaceFirst:
  "findById i bs = Some b \<Longrightarrow> booking_id b' = i \<Longrightarrow> findById i (replaceFirst b' bs) = Some b'"
  unfolding findById_def by (induction bs) (auto split: if_splits)

lemma nonstaff: "userType u \<noteq> ''staff'' \<Longrightarrow> isStaffOf u = Inr False"
  by (simp add: isStaffOf_def)

lemma save_outbox: "save sv b d = Inr d1 \<Longrightarrow> outbox d1 = outbox d"
  by (auto simp: save_def split: if_splits)

subsection \<open>Callers of type staff\<close>

text \<open>
  For a caller whose user type is staff, every handler that asks whether the caller is
  staff of the studio evaluates the unbound \<^verbatim>\<open>Staff\<close> and ends in its catch block:
  the answer is 500 and the database is as before but for the logged error.
\<close>

lemma staff_caller_server_error:
  assumes "findById i (bookings d) = Some b" "roomStudio d b = Inr st" "userType u = ''staff''"
  shows "updateBooking sv u i rq d =
           serverError ''Update booking error:'' (ReferenceError ''Staff is not defined'') d"
    and "deleteBooking u i d =
           serverError ''Delete booking error:'' (ReferenceError ''Staff is not defined'') d"
    and "confirmBooking sv u i d =
           serverError ''Confirm booking error:'' (ReferenceError ''Staff is not defined'') d"
    and "cancelBooking sv u i rq d =
           serverError ''Cancel booking error:'' (ReferenceError ''Staff is not defined'') d"
  using assms
  by (simp_all add: updateBooking_def updateBookingTry_def deleteBooking_def deleteBookingTry_def
      confirmBooking_def confirmBookingTry_def cancelBooking_def cancelBookingTry_def
      handled_def isStaffOf_def)

subsection \<open>The notification of updateBooking\<close>

lemma status_of_ownerUpdate:
  "status (ownerUpdate sv rq b) =
     (if truthyValue (bodyStatus rq)
      then (case castStatus sv (bodyStatus rq) of None \<Rightarrow> status b | Some s \<Rightarrow> s)
      else status b)"
  by (simp add: ownerUpdate_def Let_def split: option.splits)

lemma statusChanged_iff:
  "\<not> statusRefused sv rq \<Longrightarrow>
   statusChanged rq (ownerUpdate sv rq b) \<longleftrightarrow>
     truthyValue (bodyStatus rq) \<and>
     (\<exists>s. castStatus sv (bodyStatus rq) = Some s \<and> bodyStatus rq \<noteq> JStr s)"
  by (auto simp: statusChanged_def statusRefused_def status_of_ownerUpdate split: option.splits)

lemma updateBooking_outbox_unchanged:
  assumes "statusRefused sv rq \<or> \<not> statusChanged rq (ownerUpdate sv rq b)"
    and "findById i (bookings d) = Some b"
  shows "outbox (snd (updateBooking sv u i rq d)) = outbox d"
proof (cases "roomStudio d b")
  case (Inl x)
  then show ?thesis using assms(2)
    by (simp add: updateBooking_def updateBookingTry_def handled_def serverError_def)
next
  case st: (Inr st)
  show ?thesis
  proof (cases "isStaffOf u")
    case (Inl x)
    then show ?thesis using assms(2) st
      by (simp add: updateBooking_def updateBookingTry_def handled_def serverError_def)
  next
    case (Inr isStaff)
    show ?thesis
    proof (cases "client b = user_id u")
      case True
      then show ?thesis using assms(2) st Inr
        by (cases "save sv (clientUpdate rq b) d")
           (auto simp: updateBooking_def updateBookingTry_def handled_def serverError_def
              dest: save_outbox)
    next
      case False
      then show ?thesis using assms st Inr
        by (auto simp: updateBooking_def updateBookingTry_def handled_def serverError_def
              saveUpdated_def save_def Let_def)
    qed
  qed
qed

lemma updateBooking_outbox_missing:
  "findById i (bookings d) = None \<Longrightarrow> outbox (snd (updateBooking sv u i rq d)) = outbox d"
  by (simp add: updateBooking_def updateBookingTry_def handled_def)

lemma updateBooking_owner_mail:
  assumes "findById i (bookings d) = Some b" "roomStudio d b = Inr st" "userType u \<noteq> ''staff''"
    "client b \<noteq> user_id u" "owner st = user_id u"
    "\<not> statusRefused sv rq" "schemaAccepts sv (ownerUpdate sv rq b)"
    "statusChanged rq (ownerUpdate sv rq b)"
    "users d (client b) = Some c" "delivers sv (statusMail c st (bodyStatus rq))"
  shows "updateBooking sv u i rq d =
           (respond 200 (Document (Some (ownerUpdate sv rq b))),
            d\<lparr>bookings := replaceFirst (ownerUpdate sv rq b) (bookings d),
              outbox := outbox d @ [statusMail c st (bodyStatus rq)]\<rparr>)"
proof -
  have c: "client (ownerUpdate sv rq b) = client b"
    by (simp add: ownerUpdate_def Let_def split: option.splits)
  have "booking_id (ownerUpdate sv rq b) = i"
    using findById_id [OF assms(1)] by (simp add: ownerUpdate_def Let_def split: option.splits)
  then have "findById i (replaceFirst (ownerUpdate sv rq b) (bookings d))
               = Some (ownerUpdate sv rq b)"
    by (rule findById_replaceFirst [OF assms(1)])
  then show ?thesis using assms c
    by (simp add: updateBooking_def updateBookingTry_def handled_def nonstaff saveUpdated_def
        save_def clientOf_def sendEmail_def populated_def Let_def)
qed

text \<open>
  C9, as the controller has it: updateBooking compares the status of the request with
  the status of the booking after it has assigned the former to the latter. When the
  status of the request is absent or counts as false, or is a string that the status
  path stores as it is, or is refused by the path, no status-change mail is sent,
  whoever calls: the mails handed to the mailer are the same before and after the
  call. The comparison finds a change, and the mail is sent, when the status counts as
  true and the path stores it as a string other than the value itself, as it does for
  a value that is not a string: then a call by the studio's owner, who is not the
  booking's client, stores the booking and sends the mail to the client, provided the
  schema accepts the booking and the mailer delivers.
\<close>

theorem updateBooking_status_mail:
  "(\<not> truthyValue (bodyStatus rq) \<or>
    (\<exists>s. bodyStatus rq = JStr s \<and> castStatus sv (JStr s) = Some s) \<or>
    castStatus sv (bodyStatus rq) = None \<longrightarrow>
      outbox (snd (updateBooking sv u i rq d)) = outbox d) \<and>
   (findById i (bookings d) = Some b \<and> roomStudio d b = Inr st \<and> userType u \<noteq> ''staff'' \<and>
    client b \<noteq> user_id u \<and> owner st = user_id u \<and>
    truthyValue (bodyStatus rq) \<and> castStatus sv (bodyStatus rq) = Some s \<and>
    bodyStatus rq \<noteq> JStr s \<and> schemaAccepts sv (ownerUpdate sv rq b) \<and>
    users d (client b) = Some c \<and> delivers sv (statusMail c st (bodyStatus rq)) \<longrightarrow>
      outbox (snd (updateBooking sv u i rq d)) = outbox d @ [statusMail c st (bodyStatus rq)])"
proof (intro conjI impI)
  assume a: "\<not> truthyValue (bodyStatus rq) \<or>
    (\<exists>s. bodyStatus rq = JStr s \<and> castStatus sv (JStr s) = Some s) \<or>
    castStatus sv (bodyStatus rq) = None"
  show "outbox (snd (updateBooking sv u i rq d)) = outbox d"
  proof (cases "findById i (bookings d)")
    case None
    then show ?thesis by (rule updateBooking_outbox_missing)
  next
    case (Some b)
    have "statusRefused sv rq \<or> \<not> statusChanged rq (ownerUpdate sv rq b)"
      using a by (auto simp: statusRefused_def statusChanged_def status_of_ownerUpdate)
    then show ?thesis using Some by (rule updateBooking_outbox_unchanged)
  qed
next
  assume a: "findById i (bookings d) = Some b \<and> roomStudio d b = Inr st \<and>
    userType u \<noteq> ''staff'' \<and> client b \<noteq> user_id u \<and> owner st = user_id u \<and>
    truthyValue (bodyStatus rq) \<and> castStatus sv (bodyStatus rq) = Some s \<and>
    bodyStatus rq \<noteq> JStr s \<and> schemaAccepts sv (ownerUpdate sv rq b) \<and>
    users d (client b) = Some c \<and> delivers sv (statusMail c st (bodyStatus rq))"
  then have r: "\<not> statusRefused sv rq"
    by (simp add: statusRefused_def)
  have ch: "statusChanged rq (ownerUpdate sv rq b)"
    using a by (simp add: statusChanged_iff [OF r])
  show "outbox (snd (updateBooking sv u i rq d)) = outbox d @ [statusMail c st (bodyStatus rq)]"
    using a r ch by (simp add: updateBooking_owner_mail [where b = b and st = st and c = c])
qed

theorem updateBooking_status_mail_witness:
  "truthyValue (JStr ''confirmed'') \<and>
   castStatus reliable (JStr ''confirmed'') = Some ''confirmed'' \<and>
   fst (updateBooking reliable studioOwner1 7 (noBody\<lparr>bodyStatus := JStr ''confirmed''\<rparr>)
          (studioDb [booked 7 10 2 36000000 39600000 ''pending'']))
     = respond 200 (Document (Some (booked 7 10 2 36000000 39600000 ''confirmed''))) \<and>
   outbox (snd (updateBooking reliable studioOwner1 7 (noBody\<lparr>bodyStatus := JStr ''confirmed''\<rparr>)
          (studioDb [booked 7 10 2 36000000 39600000 ''pending'']))) = [] \<and>
   castStatus reliable (JBool True) = Some ''true'' \<and>
   outbox (snd (updateBooking reliable studioOwner1 7 (noBody\<lparr>bodyStatus := JBool True\<rparr>)
          (studioDb [booked 7 10 2 36000000 39600000 ''pending''])))
     = [statusMail musician2 \<lparr>owner = 1, studioName = ''Studio''\<rparr> (JBool True)]"
proof -
  let ?d = "studioDb [booked 7 10 2 36000000 39600000 ''pending'']"
  let ?b = "booked 7 10 2 36000000 39600000 ''pending''"
  let ?st = "\<lparr>owner = 1, studioName = ''Studio''\<rparr>"
  have h1: "\<not> truthyValue (bodyStatus (noBody\<lparr>bodyStatus := JStr ''confirmed''\<rparr>)) \<or>
    (\<exists>s. bodyStatus (noBody\<lparr>bodyStatus := JStr ''confirmed''\<rparr>) = JStr s \<and>
         castStatus reliable (JStr s) = Some s) \<or>
    castStatus reliable (bodyStatus (noBody\<lparr>bodyStatus := JStr ''confirmed''\<rparr>)) = None"
    by (simp add: fixtures)
  have h2: "findById 7 (bookings ?d) = Some ?b \<and> roomStudio ?d ?b = Inr ?st \<and>
    userType studioOwner1 \<noteq> ''staff'' \<and> client ?b \<noteq> user_id studioOwner1 \<and>
    owner ?st = user_id studioOwner1 \<and>
    truthyValue (bodyStatus (noBody\<lparr>bodyStatus := JBool True\<rparr>)) \<and>
    castStatus reliable (bodyStatus (noBody\<lparr>bodyStatus := JBool True\<rparr>)) = Some ''true'' \<and>
    bodyStatus (noBody\<lparr>bodyStatus := JBool True\<rparr>) \<noteq> JStr ''true'' \<and>
    schemaAccepts reliable (ownerUpdate reliable (noBody\<lparr>bodyStatus := JBool True\<rparr>) ?b) \<and>
    users ?d (client ?b) = Some musician2 \<and>
    delivers reliable (statusMail musician2 ?st (bodyStatus (noBody\<lparr>bodyStatus := JBool True\<rparr>)))"
    by (simp add: fixtures plumbing)
  from updateBooking_status_mail [of "noBody\<lparr>bodyStatus := JStr ''confirmed''\<rparr>" reliable
      studioOwner1 7 ?d] h1
    updateBooking_status_mail [of "noBody\<lparr>bodyStatus := JBool True\<rparr>" reliable
      studioOwner1 7 ?d ?b ?st "''true''" musician2] h2
  show ?thesis
    by (simp add: fixtures plumbing updateBooking_def updateBookingTry_def ownerUpdate_def
      statusChanged_def)
qed

theorem updateBooking_status_mail_counterexample:
  "updateBooking strict studioOwner1 7
      (noBody\<lparr>bodyStatus := JObj [(''_id'', JStr ''confirmed'')]\<rparr>)
      (studioDb [booked 7 10 2 36000000 39600000 ''pending''])
     = (respond 200 (Document (Some (booked 7 10 2 36000000 39600000 ''confirmed''))),
        (studioDb [booked 7 10 2 36000000 39600000 ''confirmed''])
          \<lparr>outbox := [\<lparr>mailTo = ''two@band'', mailSubject = ''Booking Updated'',
             mailText = ''Your booking for Studio has been updated. Please log in to view details.''\<rparr>]\<rparr>)"
  by (simp add: fixtures plumbing updateBooking_def updateBookingTry_def ownerUpdate_def
      statusChanged_def statusMail_def)

subsection \<open>The fields updateBooking leaves alone\<close>

lemma save_bookings: "save sv b d = Inr d1 \<Longrightarrow> bookings d1 = replaceFirst b (bookings d)"
  by (auto simp: save_def split: if_splits)

lemma updateBooking_bookings:
  assumes "findById i (bookings d) = Some b"
  shows "bookings (snd (updateBooking sv u i rq d)) = bookings d \<or>
         bookings (snd (updateBooking sv u i rq d)) =
           replaceFirst (if client b = user_id u then clientUpdate rq b else ownerUpdate sv rq b)
             (bookings d)"
proof (cases "roomStudio d b")
  case (Inl x)
  then show ?thesis using assms
    by (simp add: updateBooking_def updateBookingTry_def handled_def serverError_def)
next
  case st: (Inr st)
  show ?thesis
  proof (cases "isStaffOf u")
    case (Inl x)
    then show ?thesis using assms st
      by (simp add: updateBooking_def updateBookingTry_def handled_def serverError_def)
  next
    case (Inr isStaff)
    show ?thesis
    proof (cases "client b = user_id u")
      case True
      then show ?thesis using assms st Inr
        by (cases "save sv (clientUpdate rq b) d")
           (simp_all add: updateBooking_def updateBookingTry_def handled_def serverError_def
              save_bookings)
    next
      case False
      then show ?thesis using assms st Inr
        by (auto simp: updateBooking_def updateBookingTry_def handled_def serverError_def
              saveUpdated_def save_def clientOf_def sendEmail_def Let_def split: option.splits)
    qed
  qed
qed

lemma updateBooking_stored:
  assumes "findById i (bookings d) = Some b"
  shows "findById i (bookings (snd (updateBooking sv u i rq d))) = Some b \<or>
         findById i (bookings (snd (updateBooking sv u i rq d))) =
           Some (if client b = user_id u then clientUpdate rq b else ownerUpdate sv rq b)"
proof -
  have i: "booking_id b = i" using assms by (rule findById_id)
  have "booking_id (if client b = user_id u then clientUpdate rq b else ownerUpdate sv rq b) = i"
    using i by (simp add: clientUpdate_def ownerUpdate_def Let_def split: option.splits)
  then have "findById i
      (replaceFirst (if client b = user_id u then clientUpdate rq b else ownerUpdate sv rq b)
         (bookings d))
    = Some (if client b = user_id u then clientUpdate rq b else ownerUpdate sv rq b)"
    by (rule findById_replaceFirst [OF assms])
  then show ?thesis
    using updateBooking_bookings [OF assms, of sv u rq] assms by auto
qed

text \<open>
  C10: after updateBooking the booking of the request is still stored, and a field is
  as before unless the caller's role may set it and the request carries a value that
  counts as true for it. The booking's client may set the notes and the equipment;
  every other caller may set the status, the staff and the notes; empty notes, a status
  that counts as false and absent fields change nothing; the remaining fields never
  change.
\<close>

theorem updateBooking_frame:
  assumes "findById i (bookings d) = Some b"
  shows "\<exists>b'. findById i (bookings (snd (updateBooking sv u i rq d))) = Some b' \<and>
     sameFrame b b' \<and>
     (\<not> truthy (bodyNotes rq) \<longrightarrow> bookingNotes b' = bookingNotes b) \<and>
     (client b = user_id u \<longrightarrow>
        status b' = status b \<and> staff b' = staff b \<and>
        (equipmentIds rq = None \<longrightarrow> equipment b' = equipment b)) \<and>
     (client b \<noteq> user_id u \<longrightarrow>
        equipment b' = equipment b \<and>
        (\<not> truthyValue (bodyStatus rq) \<longrightarrow> status b' = status b) \<and>
        (staffIds rq = None \<longrightarrow> staff b' = staff b))"
  using updateBooking_stored [OF assms, of sv u rq]
  by (auto simp: sameFrame_def clientUpdate_def ownerUpdate_def Let_def truthy_def
      split: option.splits)

theorem updateBooking_frame_witness:
  "findById 7 (bookings (studioDb [booked 7 10 2 36000000 39600000 ''pending'']))
     = Some (booked 7 10 2 36000000 39600000 ''pending'') \<and>
   findById 7 (bookings (snd (updateBooking reliable musician2 7
       (noBody\<lparr>bodyNotes := Some [], bodyStatus := JStr ''confirmed'', equipmentIds := Some [30]\<rparr>)
       (studioDb [booked 7 10 2 36000000 39600000 ''pending'']))))
     = Some ((booked 7 10 2 36000000 39600000 ''pending'')\<lparr>equipment := [30]\<rparr>)"
proof -
  have h: "findById 7 (bookings (studioDb [booked 7 10 2 36000000 39600000 ''pending'']))
     = Some (booked 7 10 2 36000000 39600000 ''pending'')"
    by (simp add: fixtures plumbing)
  from updateBooking_frame [OF h, of reliable musician2
      "noBody\<lparr>bodyNotes := Some [], bodyStatus := JStr ''confirmed'', equipmentIds := Some [30]\<rparr>"]
  show ?thesis
    by (simp add: fixtures plumbing updateBooking_def updateBookingTry_def clientUpdate_def)
qed

subsection \<open>deleteBooking\<close>

lemma findById_remove: "findById (booking_id b) (bookings (remove b d)) = None"
  by (simp add: findById_def remove_def find_None_iff)

lemma deleteBooking_run:
  assumes "findById i (bookings d) = Some b" "roomStudio d b = Inr st" "userType u \<noteq> ''staff''"
  shows "deleteBooking u i d =
    (if client b \<noteq> user_id u \<and> owner st \<noteq> user_id u
     then (respond 403 (Message ''Not authorized to delete this booking''), d)
     else if client b = user_id u \<and> status b \<noteq> ''pending''
     then (respond 400 (Message ''Cannot delete a confirmed booking. Please use cancel instead.''), d)
     else (respond 200 (Message ''Booking deleted successfully''), remove b d))"
  using assms by (simp add: deleteBooking_def deleteBookingTry_def handled_def nonstaff)

text \<open>
  C5, as the controller has it: for a caller who is not of type staff, deleteBooking
  succeeds exactly when the caller is the booking's client and the booking is pending,
  or the caller is not the client and owns the studio of the booking's room (whatever
  the status). A success removes the booking. The client of a booking that is not
  pending is refused with 400, a caller who is neither the client nor the owner with
  403, and every refusal leaves the database as it was.
\<close>

theorem deleteBooking_permitted:
  assumes "findById i (bookings d) = Some b" "roomStudio d b = Inr st" "userType u \<noteq> ''staff''"
  shows "(statusCode (fst (deleteBooking u i d)) = 200 \<longleftrightarrow>
            (client b = user_id u \<and> status b = ''pending'') \<or>
            (client b \<noteq> user_id u \<and> owner st = user_id u)) \<and>
         (statusCode (fst (deleteBooking u i d)) = 200 \<longrightarrow>
            snd (deleteBooking u i d) = remove b d \<and>
            findById i (bookings (snd (deleteBooking u i d))) = None) \<and>
         (statusCode (fst (deleteBooking u i d)) \<noteq> 200 \<longrightarrow> snd (deleteBooking u i d) = d) \<and>
         (client b = user_id u \<and> status b \<noteq> ''pending'' \<longrightarrow>
            statusCode (fst (deleteBooking u i d)) = 400) \<and>
         (client b \<noteq> user_id u \<and> owner st \<noteq> user_id u \<longrightarrow>
            statusCode (fst (deleteBooking u i d)) = 403)"
  using findById_remove [of b d] findById_id [OF assms(1)]
  by (auto simp: deleteBooking_run [OF assms] respond_def)

theorem deleteBooking_permitted_witness:
  "findById 7 (bookings (studioDb [booked 7 10 2 36000000 39600000 ''pending'']))
     = Some (booked 7 10 2 36000000 39600000 ''pending'') \<and>
   roomStudio (studioDb [booked 7 10 2 36000000 39600000 ''pending''])
       (booked 7 10 2 36000000 39600000 ''pending'')
     = Inr \<lparr>owner = 1, studioName = ''Studio''\<rparr> \<and>
   userType musician2 \<noteq> ''staff'' \<and>
   statusCode (fst (deleteBooking musician2 7
       (studioDb [booked 7 10 2 36000000 39600000 ''pending'']))) = 200 \<and>
   findById 7 (bookings (snd (deleteBooking musician2 7
       (studioDb [booked 7 10 2 36000000 39600000 ''pending''])))) = None \<and>
   statusCode (fst (deleteBooking musician3 7
       (studioDb [booked 7 10 2 36000000 39600000 ''pending'']))) = 403"
proof -
  have h1: "findById 7 (bookings (studioDb [booked 7 10 2 36000000 39600000 ''pending'']))
     = Some (booked 7 10 2 36000000 39600000 ''pending'')"
    by (simp add: fixtures plumbing)
  have h2: "roomStudio (studioDb [booked 7 10 2 36000000 39600000 ''pending''])
       (booked 7 10 2 36000000 39600000 ''pending'')
     = Inr \<lparr>owner = 1, studioName = ''Studio''\<rparr>"
    by (simp add: fixtures plumbing)
  have h3: "userType musician2 \<noteq> ''staff''" "userType musician3 \<noteq> ''staff''"
    by (simp_all add: fixtures)
  from deleteBooking_permitted [OF h1 h2 h3(1)] deleteBooking_permitted [OF h1 h2 h3(2)] h1 h2 h3
  show ?thesis
    by (simp add: fixtures plumbing)
qed

theorem deleteBooking_owner_counterexample:
  "deleteBooking studioOwner1 7 (studioDb [booked 7 10 2 36000000 39600000 ''confirmed''])
     = (respond 200 (Message ''Booking deleted successfully''), studioDb [])"
  by (simp add: fixtures plumbing deleteBooking_def deleteBookingTry_def)

subsection \<open>confirmBooking\<close>

lemma confirmBooking_run:
  assumes "findById i (bookings d) = Some b" "roomStudio d b = Inr st" "userType u \<noteq> ''staff''"
    "owner st = user_id u"
  shows "confirmBooking sv u i d =
    (case save sv (b\<lparr>status := ''confirmed''\<rparr>) d of
       Inl x \<Rightarrow> serverError ''Confirm booking error:'' x d
     | Inr d1 \<Rightarrow>
        (case users d (client b) of
           None \<Rightarrow> serverError ''Confirm booking error:''
                     (TypeError ''Cannot read properties of null (reading 'email')'') d1
         | Some c \<Rightarrow>
            (case sendEmail sv (confirmMail c st) d1 of
               Inl x \<Rightarrow> serverError ''Confirm booking error:'' x d1
             | Inr d2 \<Rightarrow> (respond 200 (populated i d2), d2))))"
  using assms
  by (auto simp: confirmBooking_def confirmBookingTry_def handled_def nonstaff clientOf_def
      save_def split: sum.splits option.splits)

lemma confirmBooking_stored:
  assumes "findById i (bookings d) = Some b" "roomStudio d b = Inr st" "userType u \<noteq> ''staff''"
    "owner st = user_id u" "schemaAccepts sv (b\<lparr>status := ''confirmed''\<rparr>)"
  shows "findById i (bookings (snd (confirmBooking sv u i d))) = Some (b\<lparr>status := ''confirmed''\<rparr>)"
proof -
  have i: "booking_id (b\<lparr>status := ''confirmed''\<rparr>) = i"
    using findById_id [OF assms(1)] by simp
  have f: "findById i (replaceFirst (b\<lparr>status := ''confirmed''\<rparr>) (bookings d))
           = Some (b\<lparr>status := ''confirmed''\<rparr>)"
    using assms(1) i by (rule findById_replaceFirst)
  show ?thesis
    using f assms(5)
    by (simp add: confirmBooking_run [OF assms(1-4)] save_def sendEmail_def serverError_def
        split: option.splits)
qed

text \<open>
  C3, as the controller has it: confirmBooking reads no status. Called by the owner of
  the studio of the booking's room (a caller who is not of type staff), it stores the
  status confirmed whatever the status was, pending or not, whenever the schema accepts
  the confirmed booking, and when the client's mail is delivered it answers 200 with
  the confirmed booking. No call is refused for the status of the booking.
\<close>

theorem confirmBooking_from_every_status:
  assumes "findById i (bookings d) = Some b" "roomStudio d b = Inr st" "userType u \<noteq> ''staff''"
    "owner st = user_id u" "schemaAccepts sv (b\<lparr>status := ''confirmed''\<rparr>)"
  shows "findById i (bookings (snd (confirmBooking sv u i d))) = Some (b\<lparr>status := ''confirmed''\<rparr>) \<and>
    (\<forall>c. users d (client b) = Some c \<and> delivers sv (confirmMail c st) \<longrightarrow>
       fst (confirmBooking sv u i d) = respond 200 (Document (Some (b\<lparr>status := ''confirmed''\<rparr>))))"
proof -
  have i: "booking_id (b\<lparr>status := ''confirmed''\<rparr>) = i"
    using findById_id [OF assms(1)] by simp
  have f: "findById i (replaceFirst (b\<lparr>status := ''confirmed''\<rparr>) (bookings d))
           = Some (b\<lparr>status := ''confirmed''\<rparr>)"
    using assms(1) i by (rule findById_replaceFirst)
  show ?thesis
    using f assms(5)
    by (simp add: confirmBooking_run [OF assms(1-4)] save_def sendEmail_def serverError_def
        populated_def split: option.splits)
qed

theorem confirmBooking_from_every_status_witness:
  "findById 7 (bookings (studioDb [booked 7 10 2 36000000 39600000 ''pending'']))
     = Some (booked 7 10 2 36000000 39600000 ''pending'') \<and>
   roomStudio (studioDb [booked 7 10 2 36000000 39600000 ''pending''])
       (booked 7 10 2 36000000 39600000 ''pending'')
     = Inr \<lparr>owner = 1, studioName = ''Studio''\<rparr> \<and>
   userType studioOwner1 \<noteq> ''staff'' \<and>
   owner \<lparr>owner = 1, studioName = ''Studio''\<rparr> = user_id studioOwner1 \<and>
   schemaAccepts reliable ((booked 7 10 2 36000000 39600000 ''pending'')\<lparr>status := ''confirmed''\<rparr>) \<and>
   users (studioDb [booked 7 10 2 36000000 39600000 ''pending'']) 2 = Some musician2 \<and>
   delivers reliable (confirmMail musician2 \<lparr>owner = 1, studioName = ''Studio''\<rparr>) \<and>
   confirmBooking reliable studioOwner1 7 (studioDb [booked 7 10 2 36000000 39600000 ''pending''])
     = (respond 200 (Document (Some (booked 7 10 2 36000000 39600000 ''confirmed''))),
        (studioDb [booked 7 10 2 36000000 39600000 ''confirmed''])
          \<lparr>outbox := [confirmMail musician2 \<lparr>owner = 1, studioName = ''Studio''\<rparr>]\<rparr>)"
proof -
  have h1: "findById 7 (bookings (studioDb [booked 7 10 2 36000000 39600000 ''pending'']))
     = Some (booked 7 10 2 36000000 39600000 ''pending'')"
    by (simp add: fixtures plumbing)
  have h2: "roomStudio (studioDb [booked 7 10 2 36000000 39600000 ''pending''])
       (booked 7 10 2 36000000 39600000 ''pending'')
     = Inr \<lparr>owner = 1, studioName = ''Studio''\<rparr>"
    by (simp add: fixtures plumbing)
  have h3: "userType studioOwner1 \<noteq> ''staff''"
    by (simp add: fixtures)
  have h4: "owner \<lparr>owner = 1, studioName = ''Studio''\<rparr> = user_id studioOwner1"
    by (simp add: fixtures)
  have h5: "schemaAccepts reliable
      ((booked 7 10 2 36000000 39600000 ''pending'')\<lparr>status := ''confirmed''\<rparr>)"
    by (simp add: fixtures)
  from confirmBooking_from_every_status [OF h1 h2 h3 h4 h5] h1 h2 h3 h4 h5
  show ?thesis
    by (simp add: fixtures plumbing confirmBooking_def confirmBookingTry_def confirmMail_def)
qed

theorem confirmBooking_counterexample:
  "confirmBooking reliable studioOwner1 7 (studioDb [booked 7 10 2 36000000 39600000 ''cancelled''])
     = (respond 200 (Document (Some (booked 7 10 2 36000000 39600000 ''confirmed''))),
        (studioDb [booked 7 10 2 36000000 39600000 ''confirmed''])
          \<lparr>outbox := [confirmMail musician2 \<lparr>owner = 1, studioName = ''Studio''\<rparr>]\<rparr>) \<and>
   statusCode (fst (confirmBooking reliable studioOwner1 7
     (studioDb [booked 7 10 2 36000000 39600000 ''confirmed'']))) = 200"
  by (simp add: fixtures plumbing confirmBooking_def confirmBookingTry_def confirmMail_def)

subsection \<open>The status of a booking\<close>


lemma cancelNotice_bookings: "cancelNotice sv c st b d = Inr d2 \<Longrightarrow> bookings d2 = bookings d"
  by (auto simp: cancelNotice_def sendEmail_def split: if_splits sum.splits)

lemma cancelBooking_bookings:
  assumes "findById i (bookings d) = Some b" "roomStudio d b = Inr st" "userType u \<noteq> ''staff''"
    "client b = user_id u \<or> owner st = user_id u" "schemaAccepts sv (cancelled sv u rq b)"
  shows "bookings (snd (cancelBooking sv u i rq d)) = replaceFirst (cancelled sv u rq b) (bookings d)"
proof (cases "cancelNotice sv (client b = user_id u) st (cancelled sv u rq b)
                (d\<lparr>bookings := replaceFirst (cancelled sv u rq b) (bookings d)\<rparr>)")
  case (Inl x)
  then show ?thesis using assms
    by (auto simp: cancelBooking_def cancelBookingTry_def handled_def serverError_def nonstaff save_def)
next
  case (Inr d2)
  then show ?thesis using assms cancelNotice_bookings [OF Inr]
    by (auto simp: cancelBooking_def cancelBookingTry_def handled_def serverError_def nonstaff save_def)
qed

lemma updateBooking_client_refused:
  assumes "findById i (bookings d) = Some b" "roomStudio d b = Inr st" "userType u \<noteq> ''staff''"
    "client b = user_id u" "status b \<noteq> ''pending''"
  shows "updateBooking sv u i rq d =
           (respond 400 (Message ''Cannot update a confirmed or cancelled booking''), d)"
  using assms by (simp add: updateBooking_def updateBookingTry_def handled_def nonstaff)

lemma updateBooking_owner_bookings:
  assumes "findById i (bookings d) = Some b" "roomStudio d b = Inr st" "userType u \<noteq> ''staff''"
    "client b \<noteq> user_id u" "owner st = user_id u"
    "\<not> statusRefused sv rq" "schemaAccepts sv (ownerUpdate sv rq b)"
  shows "bookings (snd (updateBooking sv u i rq d)) = replaceFirst (ownerUpdate sv rq b) (bookings d)"
  using assms
  by (auto simp: updateBooking_def updateBookingTry_def handled_def serverError_def nonstaff
      saveUpdated_def save_def clientOf_def sendEmail_def Let_def split: option.splits)

text \<open>
  C4, as the controller has it, for a caller who is not of type staff and a stored
  booking whose room and studio exist. The status of a booking is protected from its
  client's updateBooking only: that call never changes the status, and whenever the
  booking is not pending, so also when it is cancelled or completed, it is refused with
  400 and leaves the database as it was. The other operations read no status and work
  from every status, so also from cancelled and from completed, whenever the schema
  accepts the document they save: cancelBooking by the client or by the studio's owner
  stores cancelled; confirmBooking by the owner stores confirmed; and updateBooking by
  an owner who is not the booking's client, given a status that counts as true and that
  the status path stores as the string \<open>s\<close>, stores \<open>s\<close>.
\<close>

theorem status_transitions:
  assumes "findById i (bookings d) = Some b" "roomStudio d b = Inr st" "userType u \<noteq> ''staff''"
  shows "(client b = user_id u \<longrightarrow>
            map_option status (findById i (bookings (snd (updateBooking sv u i rq d))))
              = Some (status b)) \<and>
         (client b = user_id u \<and> status b \<noteq> ''pending'' \<longrightarrow>
            updateBooking sv u i rq d =
              (respond 400 (Message ''Cannot update a confirmed or cancelled booking''), d)) \<and>
         ((client b = user_id u \<or> owner st = user_id u) \<and> schemaAccepts sv (cancelled sv u rq b) \<longrightarrow>
            map_option status (findById i (bookings (snd (cancelBooking sv u i rq d))))
              = Some ''cancelled'') \<and>
         (owner st = user_id u \<and> schemaAccepts sv (b\<lparr>status := ''confirmed''\<rparr>) \<longrightarrow>
            map_option status (findById i (bookings (snd (confirmBooking sv u i d))))
              = Some ''confirmed'') \<and>
         (client b \<noteq> user_id u \<and> owner st = user_id u \<and> truthyValue (bodyStatus rq) \<and>
          castStatus sv (bodyStatus rq) = Some s \<and> schemaAccepts sv (ownerUpdate sv rq b) \<longrightarrow>
            map_option status (findById i (bookings (snd (updateBooking sv u i rq d))))
              = Some s)"
proof -
  have i: "booking_id b = i" using assms(1) by (rule findById_id)
  have c: "findById i (replaceFirst (cancelled sv u rq b) (bookings d)) = Some (cancelled sv u rq b)"
    by (rule findById_replaceFirst [OF assms(1)]) (simp add: cancelled_def i)
  have o: "findById i (replaceFirst (ownerUpdate sv rq b) (bookings d)) = Some (ownerUpdate sv rq b)"
    by (rule findById_replaceFirst [OF assms(1)])
       (simp add: ownerUpdate_def Let_def i split: option.splits)
  have s: "truthyValue (bodyStatus rq) \<Longrightarrow> castStatus sv (bodyStatus rq) = Some s \<Longrightarrow>
           status (ownerUpdate sv rq b) = s \<and> \<not> statusRefused sv rq"
    by (simp add: status_of_ownerUpdate statusRefused_def)
  have k: "client b = user_id u \<Longrightarrow>
           map_option status (findById i (bookings (snd (updateBooking sv u i rq d))))
             = Some (status b)"
    using updateBooking_stored [OF assms(1), of sv u rq]
    by (auto simp: clientUpdate_def Let_def split: option.splits)
  show ?thesis
    using c o s k
    by (auto simp: updateBooking_client_refused [OF assms] cancelBooking_bookings [OF assms]
        confirmBooking_stored [OF assms] updateBooking_owner_bookings [OF assms] cancelled_def)
qed

theorem status_transitions_witness:
  "findById 7 (bookings (studioDb [booked 7 10 2 36000000 39600000 ''completed'']))
     = Some (booked 7 10 2 36000000 39600000 ''completed'') \<and>
   roomStudio (studioDb [booked 7 10 2 36000000 39600000 ''completed''])
       (booked 7 10 2 36000000 39600000 ''completed'')
     = Inr \<lparr>owner = 1, studioName = ''Studio''\<rparr> \<and>
   userType musician2 \<noteq> ''staff'' \<and> userType studioOwner1 \<noteq> ''staff'' \<and>
   updateBooking strict musician2 7 (noBody\<lparr>bodyNotes := Some ''late''\<rparr>)
       (studioDb [booked 7 10 2 36000000 39600000 ''completed''])
     = (respond 400 (Message ''Cannot update a confirmed or cancelled booking''),
        studioDb [booked 7 10 2 36000000 39600000 ''completed'']) \<and>
   map_option status (findById 7 (bookings (snd (cancelBooking strict musician2 7
       (noBody\<lparr>bodyNotes := Some ''late''\<rparr>)
       (studioDb [booked 7 10 2 36000000 39600000 ''completed''])))))
     = Some ''cancelled'' \<and>
   map_option status (findById 7 (bookings (snd (confirmBooking strict studioOwner1 7
       (studioDb [booked 7 10 2 36000000 39600000 ''completed''])))))
     = Some ''confirmed'' \<and>
   truthyValue (JStr ''pending'') \<and> castStatus strict (JStr ''pending'') = Some ''pending'' \<and>
   map_option status (findById 7 (bookings (snd (updateBooking strict studioOwner1 7
       (noBody\<lparr>bodyStatus := JStr ''pending''\<rparr>)
       (studioDb [booked 7 10 2 36000000 39600000 ''completed''])))))
     = Some ''pending''"
proof -
  have h1: "findById 7 (bookings (studioDb [booked 7 10 2 36000000 39600000 ''completed'']))
     = Some (booked 7 10 2 36000000 39600000 ''completed'')"
    by (simp add: fixtures plumbing)
  have h2: "roomStudio (studioDb [booked 7 10 2 36000000 39600000 ''completed''])
       (booked 7 10 2 36000000 39600000 ''completed'')
     = Inr \<lparr>owner = 1, studioName = ''Studio''\<rparr>"
    by (simp add: fixtures plumbing)
  have h3: "userType musician2 \<noteq> ''staff''" and h4: "userType studioOwner1 \<noteq> ''staff''"
    by (simp_all add: fixtures)
  from status_transitions [OF h1 h2 h3, of strict "noBody\<lparr>bodyNotes := Some ''late''\<rparr>"]
    status_transitions [OF h1 h2 h4, of strict "noBody\<lparr>bodyStatus := JStr ''pending''\<rparr>"
      "''pending''"]
    h1 h2 h3 h4
  show ?thesis
    by (simp add: fixtures truthy_def cancelled_def ownerUpdate_def)
qed

theorem terminal_status_counterexample:
  "map status (bookings (snd (cancelBooking strict studioOwner1 7 noBody
       (studioDb [booked 7 10 2 36000000 39600000 ''completed''])))) = [''cancelled''] \<and>
   map status (bookings (snd (cancelBooking strict musician2 7 noBody
       (studioDb [booked 7 10 2 36000000 39600000 ''completed''])))) = [''cancelled''] \<and>
   map status (bookings (snd (updateBooking strict studioOwner1 7
       (noBody\<lparr>bodyStatus := JStr ''pending''\<rparr>)
       (studioDb [booked 7 10 2 36000000 39600000 ''cancelled''])))) = [''pending''] \<and>
   map status (bookings (snd (confirmBooking strict studioOwner1 7
       (studioDb [booked 7 10 2 36000000 39600000 ''completed''])))) = [''confirmed'']"
  by (simp add: fixtures plumbing cancelBooking_def cancelBookingTry_def cancelled_def
      cancelNotice_def updateBooking_def updateBookingTry_def ownerUpdate_def statusChanged_def
      confirmBooking_def confirmBookingTry_def)

subsection \<open>Rounding to binary64\<close>

lemma ilog2_bounds:
  assumes "0 < x"
  shows "2 powi (ilog2 x) \<le> x \<and> x < 2 powi (ilog2 x + 1)"
proof -
  obtain p q where pq: "quotient_of x = (p, q)" by (cases "quotient_of x")
  have q: "0 < q" using pq by (rule quotient_of_denom_pos)
  have x: "x = of_int p / of_int q" using pq by (rule quotient_of_div)
  have p: "0 < p" using assms q unfolding x by (simp add: zero_less_divide_iff)
  define bp where "bp = bitlen p"
  define bq where "bq = bitlen q"
  have bp1: "1 \<le> bp" and bq1: "1 \<le> bq"
    using p q by (auto simp: bp_def bq_def bitlen_alt_def)
  have "rat_of_int (2 ^ nat (bp - 1)) \<le> of_int p" "rat_of_int p < of_int (2 ^ nat bp)"
    using bitlen_bounds [OF p] unfolding bp_def of_int_le_iff of_int_less_iff by simp_all
  then have P: "(2::rat) powi (bp - 1) \<le> of_int p" "of_int p < (2::rat) powi bp"
    using bp1 by (simp_all add: power_int_def)
  have "rat_of_int (2 ^ nat (bq - 1)) \<le> of_int q" "rat_of_int q < of_int (2 ^ nat bq)"
    using bitlen_bounds [OF q] unfolding bq_def of_int_le_iff of_int_less_iff by simp_all
  then have Q: "(2::rat) powi (bq - 1) \<le> of_int q" "of_int q < (2::rat) powi bq"
    using bq1 by (simp_all add: power_int_def)
  have lo: "2 powi (bp - bq - 1) < x"
  proof -
    have "(2::rat) powi (bp - bq - 1) = 2 powi (bp - 1) / 2 powi bq"
      by (simp add: power_int_diff)
    also have "\<dots> \<le> of_int p / 2 powi bq"
      using P(1) by (simp add: divide_right_mono)
    also have "\<dots> < of_int p / of_int q"
      using Q(2) p q by (simp add: divide_strict_left_mono)
    finally show ?thesis by (simp add: x)
  qed
  have hi: "x < 2 powi (bp - bq + 1)"
  proof -
    have "x < 2 powi bp / of_int q"
      unfolding x using P(2) q by (simp add: divide_strict_right_mono)
    also have "\<dots> \<le> 2 powi bp / 2 powi (bq - 1)"
      using Q(1) q by (simp add: frac_le)
    also have "\<dots> = 2 powi (bp - (bq - 1))"
      by (rule power_int_diff [symmetric]) simp
    also have "bp - (bq - 1) = bp - bq + 1"
      by simp
    finally show ?thesis .
  qed
  have d: "ilog2 x = (if 2 powi (bp - bq) \<le> x then bp - bq else bp - bq - 1)"
    by (simp add: ilog2_def pq bp_def bq_def Let_def)
  show ?thesis
    using lo hi by (auto simp: d not_le)
qed

lemma ilog2_eqI:
  assumes "2 powi k \<le> x" "x < 2 powi (k + 1)"
  shows "ilog2 x = k"
proof -
  have "(0::rat) < 2 powi k" by simp
  then have x: "0 < x" using assms(1) by (rule less_le_trans)
  from ilog2_bounds [OF x] have b: "2 powi (ilog2 x) \<le> x" "x < 2 powi (ilog2 x + 1)"
    by simp_all
  have "\<not> ilog2 x < k"
  proof
    assume "ilog2 x < k"
    then have "(2::rat) powi (ilog2 x + 1) \<le> 2 powi k"
      by (intro power_int_increasing) simp_all
    with b(2) assms(1) show False by simp
  qed
  moreover have "\<not> k < ilog2 x"
  proof
    assume "k < ilog2 x"
    then have "(2::rat) powi (k + 1) \<le> 2 powi (ilog2 x)"
      by (intro power_int_increasing) simp_all
    with b(1) assms(2) show False by simp
  qed
  ultimately show ?thesis by simp
qed

lemma roundTiesToEven_near:
  assumes "\<bar>m - of_int n\<bar> < 1 / 2"
  shows "roundTiesToEven m = n"
proof (cases "of_int n \<le> m")
  case True
  then have "\<lfloor>m\<rfloor> = n" using assms by (intro floor_unique) auto
  then show ?thesis using assms True by (simp add: roundTiesToEven_def Let_def)
next
  case False
  then have "\<lfloor>m\<rfloor> = n - 1" using assms by (intro floor_unique) auto
  then show ?thesis using assms False by (auto simp: roundTiesToEven_def Let_def)
qed

lemma roundTiesToEven_tie:
  assumes "\<bar>m - of_int n\<bar> = 1 / 2" "even n"
  shows "roundTiesToEven m = n"
proof (cases "of_int n \<le> m")
  case True
  then have "\<lfloor>m\<rfloor> = n" using assms by (intro floor_unique) auto
  then show ?thesis using assms True by (simp add: roundTiesToEven_def Let_def)
next
  case False
  then have "\<lfloor>m\<rfloor> = n - 1" using assms by (intro floor_unique) auto
  then show ?thesis using assms False by (auto simp: roundTiesToEven_def Let_def)
qed

lemma round64_eqI:
  assumes "2 powi k \<le> x" "x < 2 powi (k + 1)" "- 1022 \<le> k"
    and "\<bar>x / 2 powi (k - 52) - of_int n\<bar> < 1 / 2 \<or>
         \<bar>x / 2 powi (k - 52) - of_int n\<bar> = 1 / 2 \<and> even n"
    and "of_int n * 2 powi (k - 52) < (2::rat) powi 1024"
  shows "round64 x = Finite (of_int n * 2 powi (k - 52))"
proof -
  have "(0::rat) < 2 powi k" by simp
  then have x: "0 < x" using assms(1) by (rule less_le_trans)
  then have a: "\<bar>x\<bar> = x" and z: "(x = 0) = False" "(0 < x) = True" by simp_all
  have l: "ilog2 x = k" using assms(1,2) by (rule ilog2_eqI)
  have e: "max k (- 1022) - 52 = k - 52" using assms(3) by simp
  have r: "roundTiesToEven (x / 2 powi (k - 52)) = n"
    using assms(4) roundTiesToEven_near roundTiesToEven_tie by blast
  have b: "(2 powi 1024 \<le> rat_of_int n * 2 powi (k - 52)) = False"
    using assms(5) by (simp only: not_le [symmetric])
  show ?thesis
    unfolding round64_def Let_def a l e r z b by (simp only: if_False if_True)
qed

lemma round64_int_pos:
  assumes "0 < n" "n < 2 ^ 53"
  shows "round64 (of_int n) = Finite (of_int n)"
proof -
  define k where "k = ilog2 (of_int n)"
  have n: "(0::rat) < of_int n" using assms(1) by simp
  from ilog2_bounds [OF n] have b: "2 powi k \<le> rat_of_int n" "rat_of_int n < 2 powi (k + 1)"
    by (simp_all add: k_def)
  have k0: "0 \<le> k"
  proof (rule ccontr)
    assume "\<not> 0 \<le> k"
    then have "(2::rat) powi (k + 1) \<le> 2 powi 0" by (intro power_int_increasing) simp_all
    with b(2) have "rat_of_int n < 1" by simp
    with assms(1) show False by simp
  qed
  have n53: "rat_of_int n < 2 ^ 53"
    using assms(2) by (metis of_int_less_iff of_int_numeral of_int_power)
  have k52: "k \<le> 52"
  proof (rule ccontr)
    assume "\<not> k \<le> 52"
    then have "(2::rat) powi 53 \<le> 2 powi k" by (intro power_int_increasing) simp_all
    with b(1) have "(2::rat) ^ 53 \<le> rat_of_int n" by simp
    with n53 show False by simp
  qed
  define j where "j = nat (52 - k)"
  have kj: "k - 52 = - int j" using k52 by (simp add: j_def)
  have p: "(2::rat) powi (k - 52) = inverse (2 ^ j)"
    unfolding kj by (simp add: power_int_minus)
  have m: "rat_of_int n / 2 powi (k - 52) = of_int (n * 2 ^ j)"
    unfolding p by (simp add: divide_inverse)
  have y: "rat_of_int (n * 2 ^ j) * 2 powi (k - 52) = of_int n"
    unfolding p by simp
  have "\<bar>rat_of_int n / 2 powi (k - 52) - of_int (n * 2 ^ j)\<bar> < 1 / 2"
    unfolding m by simp
  moreover have "rat_of_int (n * 2 ^ j) * 2 powi (k - 52) < (2::rat) powi 1024"
    unfolding y using n53 by simp
  ultimately have "round64 (of_int n) = Finite (of_int (n * 2 ^ j) * 2 powi (k - 52))"
    using b k0 by (intro round64_eqI) simp_all
  then show ?thesis unfolding y .
qed

lemma round64_neg: "round64 (- x) = (case round64 x of Finite y \<Rightarrow> Finite (- y)
    | PosInfinity \<Rightarrow> NegInfinity | NegInfinity \<Rightarrow> PosInfinity | NaN \<Rightarrow> NaN)"
  by (cases "x = 0"; cases "0 < x") (auto simp: round64_def Let_def)

lemma round64_int:
  assumes "\<bar>n\<bar> < 2 ^ 53"
  shows "round64 (of_int n) = Finite (of_int n)"
proof -
  consider "0 < n" | "n = 0" | "n < 0" by linarith
  then show ?thesis
  proof cases
    case 1 then show ?thesis using assms by (intro round64_int_pos) simp_all
  next
    case 2 then show ?thesis by (simp add: round64_def)
  next
    case 3
    then have "round64 (of_int (- n)) = Finite (of_int (- n))"
      using assms by (intro round64_int_pos) simp_all
    then show ?thesis
      using round64_neg [of "of_int (- n)"] by simp
  qed
qed

lemma durationHours_whole:
  assumes "e - s = h * 3600000" "\<bar>e - s\<bar> < 2 ^ 53"
  shows "durationHours s e = Finite (of_int h)"
proof -
  have h: "\<bar>h\<bar> < 2 ^ 53" using assms by linarith
  have "js_sub (dateValue e) (dateValue s) = round64 (rat_of_int e - rat_of_int s)"
    by (simp add: dateValue_def)
  also have "rat_of_int e - rat_of_int s = rat_of_int (e - s)"
    by simp
  also have "round64 (rat_of_int (e - s)) = Finite (rat_of_int (e - s))"
    by (rule round64_int [OF assms(2)])
  finally have 1: "js_sub (dateValue e) (dateValue s) = Finite (rat_of_int (e - s))" .
  have "js_div (Finite (rat_of_int (e - s))) (Finite (1000 * 60 * 60))
          = round64 (rat_of_int (e - s) / 3600000)"
    by simp
  also have "rat_of_int (e - s) / 3600000 = rat_of_int h"
    unfolding assms(1) by simp
  also have "round64 (rat_of_int h) = Finite (rat_of_int h)"
    by (rule round64_int [OF h])
  finally show ?thesis
    unfolding durationHours_def 1 .
qed

lemma hours_10_12: "js_mul (Finite 50) (durationHours 36000000 43200000) = Finite 100"
  using durationHours_whole [of 43200000 36000000 2] round64_int [of 100] by simp

subsection \<open>createBooking, step by step\<close>


lemma createBooking_valid:
  assumes "roomId rq = Some r" "bodyStartTime rq = Some s" "bodyEndTime rq = Some e"
  shows "createBooking sv u rq d =
    handled ''Create booking error:''
      (createBookingTry sv u r s e (orEmpty (equipmentIds rq)) (orEmpty (staffIds rq)) (bodyNotes rq) d)"
  using assms by (simp add: createBooking_def validationErrors_def)

lemma createBooking_invalid:
  "validationErrors rq \<Longrightarrow> createBooking sv u rq d = (respond 400 Errors, d)"
  by (simp add: createBooking_def)

lemma fold_max_upper: "(a::nat) \<le> fold max xs a \<and> (\<forall>x\<in>set xs. x \<le> fold max xs a)"
proof (induction xs arbitrary: a)
  case Nil then show ?case by simp
next
  case (Cons x xs)
  from Cons.IH [of "max x a"] show ?case by auto
qed

lemma findById_freshId: "findById (freshId bs) bs = None"
proof -
  have "\<forall>x\<in>set bs. booking_id x < freshId bs"
    using fold_max_upper [of 0 "map booking_id bs"] by (force simp: freshId_def less_Suc_eq_le)
  then show ?thesis
    by (auto simp: findById_def find_None_iff)
qed

lemma findById_append: "findById i (bs @ [b]) =
   (case findById i bs of Some x \<Rightarrow> Some x | None \<Rightarrow> if booking_id b = i then Some b else None)"
  unfolding findById_def by (induction bs) auto

lemma findById_new:
  "findById (booking_id (newBooking d u r s e eqs sts a n)) (bookings d @ [newBooking d u r s e eqs sts a n])
     = Some (newBooking d u r s e eqs sts a n)"
  by (simp add: findById_append newBooking_def findById_freshId)

lemma createBookingTry_checked:
  assumes "rooms d r = Some rm" "roomConflict (bookings d) r s e = None"
    "checkEquipment d s e eqs = Inr None"
    "schemaAccepts sv (newBooking d u r s e eqs [] (js_mul (hourlyRate rm) (durationHours s e)) n)"
  shows "createBookingTry sv u r s e eqs [] n d =
    (let b = newBooking d u r s e eqs [] (js_mul (hourlyRate rm) (durationHours s e)) n;
         d1 = d\<lparr>bookings := bookings d @ [b]\<rparr>
     in case notifyOwner sv rm d1 of
          Inl x \<Rightarrow> Inl (x, d1)
        | Inr d2 \<Rightarrow> Inr (respond 201 (Document (Some b)), d2))"
proof -
  have "bookings d2 = bookings d1" if "notifyOwner sv rm d1 = Inr d2" for d1 d2
    using that by (auto simp: notifyOwner_def sendEmail_def split: option.splits if_splits)
  then show ?thesis
    using assms findById_new [of d u r s e eqs "[]" "js_mul (hourlyRate rm) (durationHours s e)" n]
    by (auto simp: createBookingTry_def checkStaff_def saveNew_def Let_def split: sum.splits)
qed

lemma createBookingTry_201:
  assumes "createBookingTry sv u r s e eqs sts n d = Inr (res, d')" "statusCode res = 201"
  shows "\<exists>rm st ow. rooms d r = Some rm \<and> roomConflict (bookings d) r s e = None \<and>
     checkEquipment d s e eqs = Inr None \<and> sts = [] \<and> 
     schemaAccepts sv (newBooking d u r s e eqs sts (js_mul (hourlyRate rm) (durationHours s e)) n) \<and>
     studios d (studio rm) = Some st \<and> users d (owner st) = Some ow \<and>
     delivers sv (newBookingMail ow st)"
proof -
  have eq: "statusCode x \<noteq> 201" if "checkEquipment d s e eqs = Inr (Some x)" for x
  proof -
    have "equipmentLoop d s e ids = Inr (Some x) \<Longrightarrow> statusCode x \<noteq> 201" for ids
      by (induction ids) (auto simp: respond_def split: option.splits)
    then show ?thesis using that
      by (auto simp: checkEquipment_def respond_def split: if_splits)
  qed
  show ?thesis
    using assms eq
    by (auto simp: createBookingTry_def checkStaff_def saveNew_def notifyOwner_def sendEmail_def
        respond_def Let_def split: option.splits sum.splits if_splits)
qed


text \<open>
  C8, as the controller has it: the owner's notification is sent inside the handler's
  only try block. Take a request that the handler answers with 201 when the mailer
  works. With a mailer that rejects, the same request on the same database stores the
  same booking, which stays stored, but the rejection is not swallowed: it is logged
  and the caller receives 500 \<^verbatim>\<open>Server error\<close> instead of the booking.
\<close>

theorem createBooking_mail_failure:
  assumes "statusCode (fst (createBooking sv u rq d)) = 201"
  shows "\<exists>b. bookings (snd (createBooking sv u rq d)) = bookings d @ [b] \<and>
     createBooking (sv\<lparr>delivers := \<lambda>_. False\<rparr>) u rq d =
       (respond 500 (Message ''Server error''),
        d\<lparr>bookings := bookings d @ [b],
          errorLog := errorLog d @ [(''Create booking error:'', MailError)]\<rparr>)"
proof -
  from assms have nv: "\<not> validationErrors rq"
    by (auto simp: createBooking_def respond_def)
  then obtain r s e where v: "roomId rq = Some r" "bodyStartTime rq = Some s" "bodyEndTime rq = Some e"
    by (auto simp: validationErrors_def)
  let ?eqs = "orEmpty (equipmentIds rq)" and ?sts = "orEmpty (staffIds rq)"
  let ?sv' = "sv\<lparr>delivers := \<lambda>_. False\<rparr>"
  from assms obtain res d' where
    t: "createBookingTry sv u r s e ?eqs ?sts (bodyNotes rq) d = Inr (res, d')" and c: "statusCode res = 201"
    by (cases "createBookingTry sv u r s e ?eqs ?sts (bodyNotes rq) d")
       (auto simp: createBooking_valid [OF v] handled_def serverError_def respond_def)
  from createBookingTry_201 [OF t c] obtain rm st ow where
    k: "rooms d r = Some rm" "roomConflict (bookings d) r s e = None"
       "checkEquipment d s e ?eqs = Inr None" "?sts = []"
       "schemaAccepts sv (newBooking d u r s e ?eqs ?sts
          (js_mul (hourlyRate rm) (durationHours s e)) (bodyNotes rq))"
       "studios d (studio rm) = Some st" "users d (owner st) = Some ow"
       "delivers sv (newBookingMail ow st)"
    by blast
  let ?b = "newBooking d u r s e ?eqs [] (js_mul (hourlyRate rm) (durationHours s e)) (bodyNotes rq)"
  have a: "schemaAccepts sv ?b" and a': "schemaAccepts ?sv' ?b"
    using k(4,5) by simp_all
  have 1: "bookings (snd (createBooking sv u rq d)) = bookings d @ [?b]"
    using k(4,6,7,8)
    by (simp add: createBooking_valid [OF v] createBookingTry_checked [OF k(1-3) a]
        handled_def notifyOwner_def sendEmail_def Let_def)
  have 2: "createBooking ?sv' u rq d =
       (respond 500 (Message ''Server error''),
        d\<lparr>bookings := bookings d @ [?b],
          errorLog := errorLog d @ [(''Create booking error:'', MailError)]\<rparr>)"
    using k(4,6,7)
    by (simp add: createBooking_valid [OF v] createBookingTry_checked [OF k(1-3) a']
        handled_def notifyOwner_def sendEmail_def serverError_def Let_def)
  from 1 2 show ?thesis by blast
qed

theorem createBooking_mail_failure_witness:
  "statusCode (fst (createBooking reliable musician2 (window 10 36000000 43200000) (studioDb []))) = 201 \<and>
   createBooking (reliable\<lparr>delivers := \<lambda>_. False\<rparr>) musician2 (window 10 36000000 43200000) (studioDb [])
     = (respond 500 (Message ''Server error''),
        (studioDb [(booked 1 10 2 36000000 43200000 ''pending'')\<lparr>totalAmount := Finite 100\<rparr>])
          \<lparr>errorLog := [(''Create booking error:'', MailError)]\<rparr>)"
proof -
  have h: "statusCode (fst (createBooking reliable musician2 (window 10 36000000 43200000) (studioDb []))) = 201"
    by (simp add: fixtures plumbing createBooking_def validationErrors_def createBookingTry_def
        roomConflict_def checkEquipment_def checkStaff_def orEmpty_def notifyOwner_def)
  from createBooking_mail_failure [OF h] show ?thesis
    by (simp add: fixtures plumbing createBooking_def validationErrors_def createBookingTry_def
        roomConflict_def checkEquipment_def checkStaff_def orEmpty_def notifyOwner_def
        newBooking_def freshId_def hours_10_12)
qed

theorem createBooking_mail_swallowed_counterexample:
  "fst (createBooking mailDown musician2 (window 10 36000000 43200000) (studioDb []))
     = respond 500 (Message ''Server error'') \<and>
   bookings (snd (createBooking mailDown musician2 (window 10 36000000 43200000) (studioDb [])))
     = [(booked 1 10 2 36000000 43200000 ''pending'')\<lparr>totalAmount := Finite 100\<rparr>]"
  by (simp add: fixtures plumbing createBooking_def validationErrors_def createBookingTry_def
        roomConflict_def checkEquipment_def checkStaff_def orEmpty_def notifyOwner_def
        newBooking_def freshId_def hours_10_12)

text \<open>
  C6, as the controller has it: the only validation of a creation request is that of
  the route. A request whose roomId is empty or whose startTime or endTime is not an
  ISO 8601 string is answered with 400 before any lookup or conflict check, and nothing
  is stored. The order of the two times is never checked: a request with
  \<open>endTime \<le> startTime\<close> for a room that exists, for which the room query finds no
  conflict and which asks for no equipment and no staff, is stored as a pending booking
  whenever the schema accepts it.
\<close>

theorem createBooking_window_not_validated:
  "(validationErrors rq \<longrightarrow> createBooking sv u rq d = (respond 400 Errors, d)) \<and>
   (roomId rq = Some r \<and> bodyStartTime rq = Some s \<and> bodyEndTime rq = Some e \<and> e \<le> s \<and>
    rooms d r = Some rm \<and> roomConflict (bookings d) r s e = None \<and>
    equipmentIds rq = None \<and> staffIds rq = None \<and>
    schemaAccepts sv (newBooking d u r s e [] []
       (js_mul (hourlyRate rm) (durationHours s e)) (bodyNotes rq)) \<longrightarrow>
    bookings (snd (createBooking sv u rq d)) =
      bookings d @ [newBooking d u r s e [] []
         (js_mul (hourlyRate rm) (durationHours s e)) (bodyNotes rq)])"
proof (intro conjI impI)
  assume "validationErrors rq"
  then show "createBooking sv u rq d = (respond 400 Errors, d)"
    by (rule createBooking_invalid)
next
  let ?b = "newBooking d u r s e [] [] (js_mul (hourlyRate rm) (durationHours s e)) (bodyNotes rq)"
  assume a: "roomId rq = Some r \<and> bodyStartTime rq = Some s \<and> bodyEndTime rq = Some e \<and> e \<le> s \<and>
    rooms d r = Some rm \<and> roomConflict (bookings d) r s e = None \<and>
    equipmentIds rq = None \<and> staffIds rq = None \<and> schemaAccepts sv ?b"
  then have v: "roomId rq = Some r" "bodyStartTime rq = Some s" "bodyEndTime rq = Some e"
    and k: "rooms d r = Some rm" "roomConflict (bookings d) r s e = None"
    and q: "checkEquipment d s e [] = Inr None" and acc: "schemaAccepts sv ?b"
    by (simp_all add: checkEquipment_def)
  have n: "bookings d2 = bookings d1" if "notifyOwner sv rm d1 = Inr d2" for d1 d2
    using that by (auto simp: notifyOwner_def sendEmail_def split: option.splits if_splits)
  show "bookings (snd (createBooking sv u rq d)) = bookings d @ [?b]"
    using a n
    by (auto simp: createBooking_valid [OF v] createBookingTry_checked [OF k q acc] orEmpty_def
        handled_def serverError_def Let_def split: sum.splits)
qed

theorem createBooking_window_not_validated_witness:
  "validationErrors noBody \<and>
   createBooking reliable musician2 noBody (studioDb []) = (respond 400 Errors, studioDb []) \<and>
   (36000000::int) \<le> 39600000 \<and>
   roomConflict (bookings (studioDb [])) 10 39600000 36000000 = None \<and>
   bookings (snd (createBooking reliable musician2 (window 10 39600000 36000000) (studioDb [])))
     = [newBooking (studioDb []) musician2 10 39600000 36000000 [] []
          (js_mul (Finite 50) (durationHours 39600000 36000000)) None]"
proof -
  have h1: "validationErrors noBody"
    by (simp add: validationErrors_def fixtures)
  have h2: "roomId (window 10 39600000 36000000) = Some 10 \<and>
    bodyStartTime (window 10 39600000 36000000) = Some 39600000 \<and>
    bodyEndTime (window 10 39600000 36000000) = Some 36000000 \<and>
    (36000000::int) \<le> 39600000 \<and>
    rooms (studioDb []) 10 = Some \<lparr>studio = 20, hourlyRate = Finite 50\<rparr> \<and>
    roomConflict (bookings (studioDb [])) 10 39600000 36000000 = None \<and>
    equipmentIds (window 10 39600000 36000000) = None \<and>
    staffIds (window 10 39600000 36000000) = None \<and>
    schemaAccepts reliable (newBooking (studioDb []) musician2 10 39600000 36000000 [] []
       (js_mul (hourlyRate \<lparr>studio = 20, hourlyRate = Finite 50\<rparr>)
          (durationHours 39600000 36000000)) (bodyNotes (window 10 39600000 36000000)))"
    by (simp add: fixtures roomConflict_def)
  from createBooking_window_not_validated [of noBody reliable musician2 "studioDb []"] h1
    createBooking_window_not_validated [of "window 10 39600000 36000000" reliable musician2
      "studioDb []" 10 39600000 36000000 "\<lparr>studio = 20, hourlyRate = Finite 50\<rparr>"] h2
  show ?thesis
    by (simp add: fixtures roomConflict_def)
qed

theorem createBooking_inverted_window_counterexample:
  "statusCode (fst (createBooking reliable musician2 (window 10 39600000 36000000) (studioDb []))) = 201 \<and>
   bookings (snd (createBooking reliable musician2 (window 10 39600000 36000000) (studioDb [])))
     = [(booked 1 10 2 39600000 36000000 ''pending'')\<lparr>totalAmount := Finite (- 50)\<rparr>]"
  using durationHours_whole [of 36000000 39600000 "- 1"] round64_int [of "- 50"]
  by (simp add: fixtures plumbing createBooking_def validationErrors_def createBookingTry_def
        roomConflict_def checkEquipment_def checkStaff_def orEmpty_def notifyOwner_def
        newBooking_def freshId_def overlapQuery_def)

subsection \<open>The amount of a new booking\<close>


text \<open>
  C7, as the controller has it: the amount is computed with the numbers of JavaScript,
  which are binary64 floating-point numbers. The amount stored at creation is the
  product of the room's hourly rate and the quotient of \<open>endTime - startTime\<close> by
  3600000, where the difference, the quotient and the product are each rounded to the
  nearest binary64 value. The result is the exact product when the rate is a whole
  number, the window is a whole number of hours shorter than \<open>2 ^ 53\<close> milliseconds and
  the product is below \<open>2 ^ 53\<close>; so a rate of 50 from 10:00 to 12:00 gives exactly 100.
\<close>

theorem createBooking_totalAmount:
  assumes "roomId rq = Some r" "bodyStartTime rq = Some s" "bodyEndTime rq = Some e"
    "rooms d r = Some rm" "statusCode (fst (createBooking sv u rq d)) = 201"
  shows "\<exists>b. bookings (snd (createBooking sv u rq d)) = bookings d @ [b] \<and>
     totalAmount b = js_mul (hourlyRate rm)
                       (js_div (js_sub (dateValue e) (dateValue s)) (Finite 3600000)) \<and>
     (\<forall>c h. hourlyRate rm = Finite (of_int c) \<and> e - s = h * 3600000 \<and>
            \<bar>e - s\<bar> < 2 ^ 53 \<and> \<bar>c * h\<bar> < 2 ^ 53 \<longrightarrow>
            totalAmount b = Finite (of_int (c * h)))"
proof -
  let ?eqs = "orEmpty (equipmentIds rq)" and ?sts = "orEmpty (staffIds rq)"
  note v = assms(1-3)
  from assms(5) obtain res d' where
    t: "createBookingTry sv u r s e ?eqs ?sts (bodyNotes rq) d = Inr (res, d')" and c: "statusCode res = 201"
    by (cases "createBookingTry sv u r s e ?eqs ?sts (bodyNotes rq) d")
       (auto simp: createBooking_valid [OF v] handled_def serverError_def respond_def)
  from createBookingTry_201 [OF t c] assms(4) obtain st ow where
    k: "roomConflict (bookings d) r s e = None"
       "checkEquipment d s e ?eqs = Inr None" "?sts = []"
       "schemaAccepts sv (newBooking d u r s e ?eqs ?sts
          (js_mul (hourlyRate rm) (durationHours s e)) (bodyNotes rq))"
       "studios d (studio rm) = Some st" "users d (owner st) = Some ow"
       "delivers sv (newBookingMail ow st)"
    by auto
  let ?b = "newBooking d u r s e ?eqs [] (js_mul (hourlyRate rm) (durationHours s e)) (bodyNotes rq)"
  have a: "schemaAccepts sv ?b"
    using k(3,4) by simp
  have 1: "bookings (snd (createBooking sv u rq d)) = bookings d @ [?b]"
    using k(3,5,6,7)
    by (simp add: createBooking_valid [OF v] createBookingTry_checked [OF assms(4) k(1,2) a]
        handled_def notifyOwner_def sendEmail_def Let_def)
  have 2: "totalAmount ?b = js_mul (hourlyRate rm)
                       (js_div (js_sub (dateValue e) (dateValue s)) (Finite 3600000))"
    by (simp add: newBooking_def durationHours_def)
  have 3: "totalAmount ?b = Finite (of_int (c * h))"
    if "hourlyRate rm = Finite (of_int c)" "e - s = h * 3600000" "\<bar>e - s\<bar> < 2 ^ 53"
       "\<bar>c * h\<bar> < 2 ^ 53" for c h
  proof -
    have "totalAmount ?b = js_mul (Finite (of_int c)) (Finite (of_int h))"
      using that(1) durationHours_whole [OF that(2,3)] by (simp add: newBooking_def)
    also have "\<dots> = round64 (rat_of_int (c * h))"
      by simp
    also have "\<dots> = Finite (rat_of_int (c * h))"
      by (rule round64_int [OF that(4)])
    finally show ?thesis .
  qed
  from 1 2 3 show ?thesis by blast
qed

lemma tenth: "round64 (1 / 10) = Finite (3602879701896397 / 36028797018963968)"
proof -
  have "round64 (1 / 10) = Finite (of_int 7205759403792794 * 2 powi (- 4 - 52))"
    by (rule round64_eqI) simp_all
  then show ?thesis by simp
qed

lemma three_tenths: "round64 (3 / 10) = Finite (5404319552844595 / 18014398509481984)"
proof -
  have "round64 (3 / 10) = Finite (of_int 5404319552844595 * 2 powi (- 2 - 52))"
    by (rule round64_eqI) simp_all
  then show ?thesis by simp
qed

lemma tenth_times_3:
  "js_mul (Finite (3602879701896397 / 36028797018963968)) (durationHours 36000000 46800000)
     = Finite (1351079888211149 / 4503599627370496)"
proof -
  have "round64 ((3602879701896397 / 36028797018963968) * 3)
          = Finite (of_int 5404319552844596 * 2 powi (- 2 - 52))"
    by (rule round64_eqI) simp_all
  then show ?thesis
    using durationHours_whole [of 46800000 36000000 3] by simp
qed

theorem createBooking_totalAmount_counterexample:
  "map totalAmount
     (bookings (snd (createBooking reliable musician2 (window 11 36000000 46800000) (studioDb []))))
     = [Finite (1351079888211149 / 4503599627370496)] \<and>
   map_option hourlyRate (rooms (studioDb []) 11) = Some (round64 (1 / 10)) \<and>
   (1351079888211149 / 4503599627370496 :: rat) \<noteq> 3 / 10 \<and>
   (1351079888211149 / 4503599627370496 :: rat) \<noteq> 3 * (3602879701896397 / 36028797018963968) \<and>
   Finite (1351079888211149 / 4503599627370496) \<noteq> round64 (3 / 10)"
  by (simp add: fixtures plumbing createBooking_def validationErrors_def createBookingTry_def
        roomConflict_def checkEquipment_def checkStaff_def orEmpty_def notifyOwner_def
        newBooking_def freshId_def tenth_times_3 tenth three_tenths)

theorem createBooking_totalAmount_witness:
  "roomId (window 10 36000000 43200000) = Some 10 \<and>
   bodyStartTime (window 10 36000000 43200000) = Some 36000000 \<and>
   bodyEndTime (window 10 36000000 43200000) = Some 43200000 \<and>
   rooms (studioDb []) 10 = Some \<lparr>studio = 20, hourlyRate = Finite 50\<rparr> \<and>
   statusCode (fst (createBooking reliable musician2 (window 10 36000000 43200000) (studioDb []))) = 201 \<and>
   map totalAmount
     (bookings (snd (createBooking reliable musician2 (window 10 36000000 43200000) (studioDb []))))
     = [Finite 100]"
proof -
  have h: "roomId (window 10 36000000 43200000) = Some 10"
   "bodyStartTime (window 10 36000000 43200000) = Some 36000000"
   "bodyEndTime (window 10 36000000 43200000) = Some 43200000"
   "rooms (studioDb []) 10 = Some \<lparr>studio = 20, hourlyRate = Finite 50\<rparr>"
   "statusCode (fst (createBooking reliable musician2 (window 10 36000000 43200000) (studioDb []))) = 201"
    by (simp_all add: fixtures plumbing createBooking_def validationErrors_def createBookingTry_def
        roomConflict_def checkEquipment_def checkStaff_def orEmpty_def notifyOwner_def)
  from createBooking_totalAmount [OF h] obtain b where
    b: "bookings (snd (createBooking reliable musician2 (window 10 36000000 43200000) (studioDb [])))
          = bookings (studioDb []) @ [b]"
    and e: "\<forall>c h. hourlyRate \<lparr>studio = 20, hourlyRate = Finite 50\<rparr> = Finite (of_int c) \<and>
            43200000 - 36000000 = h * 3600000 \<and>
            \<bar>43200000 - 36000000 :: int\<bar> < 2 ^ 53 \<and> \<bar>c * h\<bar> < 2 ^ 53 \<longrightarrow>
            totalAmount b = Finite (of_int (c * h))"
    by blast
  from e [rule_format, of 50 2] have "totalAmount b = Finite 100" by simp
  with b h show ?thesis by (simp add: fixtures)
qed


subsection \<open>Conflicts at creation\<close>



















subsection \<open>Equipment and staff set by updateBooking\<close>

text \<open>
  C2: updateBooking runs no availability query. The client of the pending booking 7
  (room 10, 10:00 to 11:00) asks for the microphone 30, which the confirmed booking 8
  holds in room 11 for the same hour; the equipment query of createBooking finds that
  booking, and a creation request for the same hour and microphone is refused, yet the
  update is answered with 200 and stored. In the same way the studio's owner assigns
  the member of staff 40, who is on booking 8, to booking 7.
\<close>

theorem updateBooking_without_conflict_check:
  "updateBooking reliable musician2 7 (noBody\<lparr>equipmentIds := Some [30]\<rparr>)
      (studioDb [booked 7 10 2 36000000 39600000 ''pending'',
                 (booked 8 11 3 36000000 39600000 ''confirmed'')\<lparr>equipment := [30]\<rparr>])
     = (respond 200 (Document (Some ((booked 7 10 2 36000000 39600000 ''pending'')\<lparr>equipment := [30]\<rparr>))),
        studioDb [(booked 7 10 2 36000000 39600000 ''pending'')\<lparr>equipment := [30]\<rparr>,
                  (booked 8 11 3 36000000 39600000 ''confirmed'')\<lparr>equipment := [30]\<rparr>]) \<and>
   equipmentConflict
      [booked 7 10 2 36000000 39600000 ''pending'',
       (booked 8 11 3 36000000 39600000 ''confirmed'')\<lparr>equipment := [30]\<rparr>] 30 36000000 39600000
     = Some ((booked 8 11 3 36000000 39600000 ''confirmed'')\<lparr>equipment := [30]\<rparr>) \<and>
   fst (createBooking reliable musician2 ((window 10 36000000 39600000)\<lparr>equipmentIds := Some [30]\<rparr>)
      (studioDb [(booked 8 11 3 36000000 39600000 ''confirmed'')\<lparr>equipment := [30]\<rparr>]))
     = equipmentUnavailable \<lparr>equipmentName = ''Mic''\<rparr> \<and>
   updateBooking reliable studioOwner1 7 (noBody\<lparr>staffIds := Some [40]\<rparr>)
      (studioDb [booked 7 10 2 36000000 39600000 ''pending'',
                 (booked 8 11 3 36000000 39600000 ''confirmed'')\<lparr>staff := [40]\<rparr>])
     = (respond 200 (Document (Some ((booked 7 10 2 36000000 39600000 ''pending'')\<lparr>staff := [40]\<rparr>))),
        studioDb [(booked 7 10 2 36000000 39600000 ''pending'')\<lparr>staff := [40]\<rparr>,
                  (booked 8 11 3 36000000 39600000 ''confirmed'')\<lparr>staff := [40]\<rparr>])"
  by (simp add: fixtures plumbing updateBooking_def updateBookingTry_def clientUpdate_def
        ownerUpdate_def statusChanged_def equipmentConflict_def overlapQuery_def
        createBooking_def validationErrors_def createBookingTry_def roomConflict_def
        checkEquipment_def findEquipment_def map_filter_def orEmpty_def equipmentUnavailable_def)

end
